theory Spec2Isabelle
  imports Complex_Main "HOL-Library.Word"
begin

section \<open>Thrown values\<close>

text \<open>
  Every \<^verbatim>\<open>throw\<close> of \<^verbatim>\<open>src/api/videos.ts\<close> and every exception of a collaborator is a
  value of this type. \<open>BadRequestError\<close>, \<open>NotFoundError\<close> and \<open>UserForbiddenError\<close> are
  the classes imported from \<^verbatim>\<open>./errors\<close>; \<open>Error\<close> is JavaScript's plain
  \<^verbatim>\<open>new Error(message)\<close>; \<open>TypeError\<close> is what the runtime raises on a property read
  or a destructuring of \<^verbatim>\<open>null\<close> or \<^verbatim>\<open>undefined\<close> (its message is engine text and is
  left out); \<open>Thrown cls msg\<close> stands for any other exception.
\<close>

datatype error =
    BadRequestError string
  | NotFoundError string
  | UserForbiddenError string
  | Error string
  | TypeError
  | Thrown string string

section \<open>JavaScript numbers\<close>

text \<open>
  A JavaScript number is an IEEE 754 binary64 value: NaN, or a sign and a magnitude that
  is finite or infinite. The sign is kept apart from the magnitude, so that both zeros
  exist (\<open>Num False (Fin 0)\<close> and \<open>Num True (Fin 0)\<close>).
\<close>

datatype mag = Fin rat | Infty

datatype jsnum = NaN | Num bool mag

text \<open>\<open>ilog2 x\<close> is the binary exponent of a positive rational: \<open>2^e \<le> x < 2^(e+1)\<close>.\<close>

function ilog2 :: "rat \<Rightarrow> int" where
  "ilog2 x = (if x \<le> 0 then 0
              else if 2 \<le> x then ilog2 (x / 2) + 1
              else if x < 1 then ilog2 (2 * x) - 1
              else 0)"
  by pat_completeness auto
termination
proof (relation "measure (\<lambda>x. nat \<lfloor>x\<rfloor> + 2 * nat \<lceil>1 / x\<rceil>)", goal_cases)
  case 1
  show ?case by simp
next
  case (2 x)
  then have x: "2 \<le> x" by simp
  have a: "\<lfloor>x / 2\<rfloor> < \<lfloor>x\<rfloor>"
  proof -
    have "x / 2 + 1 \<le> x" using x by simp
    then have "\<lfloor>x / 2 + 1\<rfloor> \<le> \<lfloor>x\<rfloor>" by (rule floor_mono)
    then show ?thesis by simp
  qed
  have b: "\<lceil>1 / (x / 2)\<rceil> = 1" using x by (simp add: ceiling_eq_iff)
  have c: "\<lceil>1 / x\<rceil> = 1" using x by (simp add: ceiling_eq_iff)
  have d: "0 < \<lfloor>x\<rfloor>" using x by simp
  show ?case using a b c d by simp
next
  case (3 x)
  then have x: "0 < x" "x < 1" by simp_all
  have b: "\<lfloor>2 * x\<rfloor> \<le> 1" using x by (simp add: floor_le_iff)
  have c: "\<lceil>1 / (2 * x)\<rceil> < \<lceil>1 / x\<rceil>"
  proof (cases "1 / x \<le> 2")
    case True
    then have "1 / (2 * x) \<le> 1" by simp
    then have "\<lceil>1 / (2 * x)\<rceil> \<le> 1" by (simp add: ceiling_le_iff)
    moreover have "1 < 1 / x" using x by simp
    then have "1 < \<lceil>1 / x\<rceil>" by (simp add: less_ceiling_iff)
    ultimately show ?thesis by linarith
  next
    case False
    have "of_int \<lceil>1 / (2 * x)\<rceil> < 1 / (2 * x) + 1" by linarith
    also have "1 / (2 * x) + 1 < 1 / x" using False by (simp add: field_simps)
    finally show ?thesis by (simp add: less_ceiling_iff)
  qed
  have d: "0 < \<lceil>1 / (2 * x)\<rceil>" using x by simp
  have "nat \<lfloor>2 * x\<rfloor> \<le> 1" using b by linarith
  moreover have "nat \<lceil>1 / (2 * x)\<rceil> + 1 \<le> nat \<lceil>1 / x\<rceil>" using c d by linarith
  ultimately have "nat \<lfloor>2 * x\<rfloor> + 2 * nat \<lceil>1 / (2 * x)\<rceil> < nat \<lfloor>x\<rfloor> + 2 * nat \<lceil>1 / x\<rceil>"
    by linarith
  then show ?case by simp
qed

declare ilog2.simps [simp del]

text \<open>\<open>scale2 x k\<close> is \<open>x * 2^k\<close> for an integer \<open>k\<close> of either sign.\<close>

definition scale2 :: "rat \<Rightarrow> int \<Rightarrow> rat" where
  "scale2 x k = x * 2 powi k"

text \<open>Rounding to the nearest integer, a tie going to the even neighbour.\<close>

definition round_half_even :: "rat \<Rightarrow> int" where
  "round_half_even q =
     (let f = \<lfloor>q\<rfloor>; d = q - of_int f
      in if d < 1 / 2 then f else if 1 / 2 < d then f + 1 else if even f then f else f + 1)"

text \<open>
  \<open>round_double x\<close> is the binary64 value nearest to the rational \<open>x \<ge> 0\<close> (round to
  nearest, ties to even): 53 significant bits, the exponent no smaller than \<open>-1022\<close>
  (below that the grid is the subnormal one), and infinity once the rounded value
  reaches \<open>2^1024\<close>.
\<close>

definition round_double :: "rat \<Rightarrow> mag" where
  "round_double x =
     (if x = 0 then Fin 0
      else let e = max (ilog2 x) (- 1022);
               n = round_half_even (scale2 x (52 - e));
               r = scale2 (of_int n) (e - 52)
           in if 2 ^ 1024 \<le> r then Infty else Fin r)"

text \<open>A decimal literal of the source, such as \<^verbatim>\<open>1.7\<close>, denotes the nearest binary64 value.\<close>

definition js_literal :: "rat \<Rightarrow> jsnum" where
  "js_literal x = Num False (round_double x)"

text \<open>
  The number that \<^verbatim>\<open>JSON.parse\<close> yields for an integer literal: integers of magnitude up
  to \<open>2^53\<close> are binary64 values themselves.
\<close>

definition js_int :: "int \<Rightarrow> jsnum" where
  "js_int i = Num (i < 0) (Fin (of_int \<bar>i\<bar>))"

text \<open>The operator \<^verbatim>\<open>/\<close> on two numbers.\<close>

fun js_div :: "jsnum \<Rightarrow> jsnum \<Rightarrow> jsnum" where
  "js_div NaN _ = NaN"
| "js_div _ NaN = NaN"
| "js_div (Num s Infty) (Num t Infty) = NaN"
| "js_div (Num s Infty) (Num t (Fin y)) = Num (s \<noteq> t) Infty"
| "js_div (Num s (Fin x)) (Num t Infty) = Num (s \<noteq> t) (Fin 0)"
| "js_div (Num s (Fin x)) (Num t (Fin y)) =
     (if y = 0 then (if x = 0 then NaN else Num (s \<noteq> t) Infty)
      else Num (s \<noteq> t) (round_double (x / y)))"

text \<open>The operator \<^verbatim>\<open><\<close> on two numbers: false when either is NaN; the two zeros are equal.\<close>

definition signed :: "bool \<Rightarrow> rat \<Rightarrow> rat" where
  "signed s x = (if s then - x else x)"

fun js_less :: "jsnum \<Rightarrow> jsnum \<Rightarrow> bool" where
  "js_less NaN _ = False"
| "js_less _ NaN = False"
| "js_less (Num s Infty) (Num t Infty) = (s \<and> \<not> t)"
| "js_less (Num s Infty) (Num t (Fin y)) = s"
| "js_less (Num s (Fin x)) (Num t Infty) = (\<not> t)"
| "js_less (Num s (Fin x)) (Num t (Fin y)) = (signed s x < signed t y)"

definition js_greater :: "jsnum \<Rightarrow> jsnum \<Rightarrow> bool" where
  "js_greater a b = js_less b a"

section \<open>Values produced by \<^verbatim>\<open>JSON.parse\<close>\<close>

text \<open>
  An object is the list of its own properties; \<open>map_of\<close> reads one. The JavaScript value
  \<^verbatim>\<open>undefined\<close> never occurs inside parsed JSON: it is \<open>None\<close> of \<open>json option\<close>, the
  result of reading a property that is not there.
\<close>

datatype json =
    JNull
  | JBool bool
  | JNum jsnum
  | JStr string
  | JArr "json list"
  | JObj "(string \<times> json) list"

text \<open>
  \<^verbatim>\<open>v.name\<close> for one of the names \<^verbatim>\<open>streams\<close>, \<^verbatim>\<open>width\<close>, \<^verbatim>\<open>height\<close>: no prototype has
  such a property, so only an object's own property is found; reading from \<^verbatim>\<open>null\<close>
  throws.
\<close>

fun js_member :: "json \<Rightarrow> string \<Rightarrow> error + json option" where
  "js_member JNull name = Inl TypeError"
| "js_member (JObj props) name = Inr (map_of props name)"
| "js_member _ name = Inr None"

text \<open>\<^verbatim>\<open>v.length\<close> for a value that is not \<^verbatim>\<open>null\<close>.\<close>

fun js_length :: "json \<Rightarrow> json option" where
  "js_length (JArr xs) = Some (JNum (Num False (Fin (of_nat (length xs)))))"
| "js_length (JStr s) = Some (JNum (Num False (Fin (of_nat (length s)))))"
| "js_length (JObj props) = map_of props ''length''"
| "js_length _ = None"

text \<open>\<^verbatim>\<open>v[0]\<close> for a value that is not \<^verbatim>\<open>null\<close>.\<close>

fun js_index0 :: "json \<Rightarrow> json option" where
  "js_index0 (JArr xs) = (case xs of [] \<Rightarrow> None | x # _ \<Rightarrow> Some x)"
| "js_index0 (JStr s) = (case s of [] \<Rightarrow> None | c # _ \<Rightarrow> Some (JStr [c]))"
| "js_index0 (JObj props) = map_of props ''0''"
| "js_index0 _ = None"

text \<open>Truthiness, as \<^verbatim>\<open>!v\<close> tests it.\<close>

fun js_truthy :: "json \<Rightarrow> bool" where
  "js_truthy JNull = False"
| "js_truthy (JBool b) = b"
| "js_truthy (JNum NaN) = False"
| "js_truthy (JNum (Num s m)) = (m \<noteq> Fin 0)"
| "js_truthy (JStr s) = (s \<noteq> [])"
| "js_truthy (JArr xs) = True"
| "js_truthy (JObj props) = True"

text \<open>\<^verbatim>\<open>v === 0\<close>: only a number that is a zero of either sign.\<close>

fun js_strict_eq_zero :: "json option \<Rightarrow> bool" where
  "js_strict_eq_zero (Some (JNum (Num s m))) = (m = Fin 0)"
| "js_strict_eq_zero _ = False"

text \<open>
  \<^verbatim>\<open>const { width, height } = v\<close>: throws on \<^verbatim>\<open>undefined\<close> and \<^verbatim>\<open>null\<close>, and reads the
  two properties otherwise.
\<close>

fun js_destructure :: "json option \<Rightarrow> error + (json option \<times> json option)" where
  "js_destructure None = Inl TypeError"
| "js_destructure (Some JNull) = Inl TypeError"
| "js_destructure (Some (JObj props)) = Inr (map_of props ''width'', map_of props ''height'')"
| "js_destructure (Some _) = Inr (None, None)"

text \<open>
  The conversion \<open>ToNumber\<close> that \<^verbatim>\<open>/\<close> applies to each operand. On a string, an array or
  an object it runs the language's string parser or the object's own conversion
  methods, which can throw; that part is the parameter \<open>conv\<close>.
\<close>

fun ToNumber :: "(json \<Rightarrow> error + jsnum) \<Rightarrow> json option \<Rightarrow> error + jsnum" where
  "ToNumber conv None = Inr NaN"
| "ToNumber conv (Some JNull) = Inr (Num False (Fin 0))"
| "ToNumber conv (Some (JBool b)) = Inr (Num False (Fin (if b then 1 else 0)))"
| "ToNumber conv (Some (JNum n)) = Inr n"
| "ToNumber conv (Some v) = conv v"

section \<open>Data model\<close>

text \<open>
  Modelled from the spec: the video record of \<^verbatim>\<open>../db/videos\<close>, which is not among the
  sources; the spec gives it an identifier, an owning user identifier and a nullable URL.
\<close>

record video =
  videoID :: string
  userID :: string
  videoURL :: "string option"

text \<open>The fields of \<^verbatim>\<open>ApiConfig\<close> that the handler reads (\<^verbatim>\<open>cfg.db\<close> is the store in the world).\<close>

record ApiConfig =
  jwtSecret :: string
  s3Bucket :: string
  s3Region :: string

text \<open>A \<^verbatim>\<open>File\<close> of the form data: \<^verbatim>\<open>file.size\<close>, \<^verbatim>\<open>file.type\<close> and its bytes.\<close>

record File =
  fsize :: nat
  ftype :: string
  fbytes :: string

datatype form_entry = FormString string | FormFile File

record request =
  params_videoId :: "string option"
  headers :: "(string \<times> string) list"
  formData :: "error + (string \<times> form_entry) list"

text \<open>
  Modelled from the spec: \<^verbatim>\<open>respondWithJSON\<close> of \<^verbatim>\<open>./json\<close>, which is not among the
  sources; the response is a status and the record serialised as its body.
\<close>

record response =
  status :: nat
  body :: video

text \<open>What the handler reads from a finished subprocess.\<close>

record proc =
  exitCode :: int
  outputText :: string
  errorText :: string

type_synonym fs = "string \<Rightarrow> string option"

type_synonym bucket = "string \<Rightarrow> (string \<times> string) option"

text \<open>Every call that acts on the outside world leaves an event, in the order of the calls.\<close>

datatype event =
    Write string
  | Spawn "string list"
  | S3Put string string string
  | DbUpdate video
  | Rm string

record world =
  db :: "video list"
  files :: fs
  s3 :: bucket
  trace :: "event list"

text \<open>
  The collaborators that are not among the sources, and the behaviour of the outside
  world during one request, are parameters:
  \<^item> \<open>getBearerToken\<close>, \<open>validateJWT\<close> (\<^verbatim>\<open>../auth\<close>) and \<open>uploadVideoToS3\<close> (\<^verbatim>\<open>../s3\<close>);
  \<^item> \<open>path_join\<close> (\<^verbatim>\<open>path.join\<close>) and \<open>JSON_parse\<close> (\<^verbatim>\<open>JSON.parse\<close>), and \<open>ToNumber_object\<close>,
    the conversion of a string, array or object to a number;
  \<^item> \<open>spawn\<close>: what a subprocess with the given arguments does to the files, and its exit
    code and output, or the exception of \<^verbatim>\<open>Bun.spawn\<close>;
  \<^item> \<open>write_error\<close> and \<open>rm_error\<close>: whether writing or deleting the given path fails;
  \<^item> \<open>rm_race\<close>: when both deletions fail, whether the second one is the first to reject.
\<close>

record env =
  getBearerToken :: "(string \<times> string) list \<Rightarrow> error + string"
  validateJWT :: "string \<Rightarrow> string \<Rightarrow> error + string"
  uploadVideoToS3 :: "ApiConfig \<Rightarrow> string \<Rightarrow> string \<Rightarrow> string \<Rightarrow> fs \<Rightarrow> bucket \<Rightarrow> error + bucket"
  path_join :: "string \<Rightarrow> string \<Rightarrow> string"
  JSON_parse :: "string \<Rightarrow> error + json"
  ToNumber_object :: "json \<Rightarrow> error + jsnum"
  spawn :: "string list \<Rightarrow> fs \<Rightarrow> error + (proc \<times> fs)"
  write_error :: "string \<Rightarrow> error option"
  rm_error :: "string \<Rightarrow> error option"
  rm_race :: bool

section \<open>Sequencing with exceptions\<close>

text \<open>
  An \<^verbatim>\<open>async\<close> function body is a state transformer that returns a value or the thrown
  error; an error ends the run and keeps the world as it is at the \<^verbatim>\<open>throw\<close>.
\<close>

type_synonym 'a io = "world \<Rightarrow> (error + 'a) \<times> world"

definition io_return :: "'a \<Rightarrow> 'a io" where
  "io_return x w = (Inr x, w)"

definition io_throw :: "error \<Rightarrow> 'a io" where
  "io_throw e w = (Inl e, w)"

definition io_lift :: "error + 'a \<Rightarrow> 'a io" where
  "io_lift r w = (r, w)"

definition io_bind :: "'a io \<Rightarrow> ('a \<Rightarrow> 'b io) \<Rightarrow> 'b io" where
  "io_bind m f w = (case m w of (Inl e, w') \<Rightarrow> (Inl e, w') | (Inr x, w') \<Rightarrow> f x w')"

definition emit :: "event \<Rightarrow> world \<Rightarrow> world" where
  "emit ev w = w\<lparr>trace := trace w @ [ev]\<rparr>"

section \<open>Calls into the outside world\<close>

text \<open>\<^verbatim>\<open>Bun.write(path, file)\<close>: creates or overwrites the file at \<open>path\<close>.\<close>

definition Bun_write :: "env \<Rightarrow> string \<Rightarrow> File \<Rightarrow> unit io" where
  "Bun_write env path f w =
     (let w1 = emit (Write path) w
      in case write_error env path of
           Some e \<Rightarrow> (Inl e, w1)
         | None \<Rightarrow> (Inr (), w1\<lparr>files := (files w1)(path \<mapsto> fbytes f)\<rparr>))"

text \<open>
  \<^verbatim>\<open>Bun.spawn(argv, ...)\<close> followed by reading the pipes to their end and awaiting
  \<^verbatim>\<open>process.exited\<close>.
\<close>

definition Bun_spawn :: "env \<Rightarrow> string list \<Rightarrow> proc io" where
  "Bun_spawn env argv w =
     (let w1 = emit (Spawn argv) w
      in case spawn env argv (files w1) of
           Inl e \<Rightarrow> (Inl e, w1)
         | Inr (p, fs') \<Rightarrow> (Inr p, w1\<lparr>files := fs'\<rparr>))"

text \<open>\<^verbatim>\<open>await uploadVideoToS3(cfg, key, path, contentType)\<close>.\<close>

definition s3_upload :: "env \<Rightarrow> ApiConfig \<Rightarrow> string \<Rightarrow> string \<Rightarrow> string \<Rightarrow> unit io" where
  "s3_upload env cfg key path contentType w =
     (let w1 = emit (S3Put key path contentType) w
      in case uploadVideoToS3 env cfg key path contentType (files w1) (s3 w1) of
           Inl e \<Rightarrow> (Inl e, w1)
         | Inr b \<Rightarrow> (Inr (), w1\<lparr>s3 := b\<rparr>))"

text \<open>
  Modelled from the spec: \<^verbatim>\<open>getVideo\<close> and \<^verbatim>\<open>updateVideo\<close> of \<^verbatim>\<open>../db/videos\<close>, which
  are not among the sources. The spec's store returns the record with the given
  identifier or null, and \<open>update\<close> replaces the stored record of the same identifier.
\<close>

definition getVideo :: "video list \<Rightarrow> string \<Rightarrow> video option" where
  "getVideo d videoId = find (\<lambda>v. videoID v = videoId) d"

definition updateVideo :: "video list \<Rightarrow> video \<Rightarrow> video list" where
  "updateVideo d v = map (\<lambda>u. if videoID u = videoID v then v else u) d"

definition db_update :: "video \<Rightarrow> unit io" where
  "db_update v w = (Inr (), (emit (DbUpdate v) w)\<lparr>db := updateVideo (db w) v\<rparr>)"

text \<open>
  \<^verbatim>\<open>rm(path, { force: true })\<close>: with \<^verbatim>\<open>force\<close>, a path that does not exist is not an
  error; deleting an existing file succeeds or fails as the world decides.
\<close>

definition rm_force :: "env \<Rightarrow> string \<Rightarrow> unit io" where
  "rm_force env path w =
     (let w1 = emit (Rm path) w
      in if files w1 path = None then (Inr (), w1)
         else case rm_error env path of
                Some e \<Rightarrow> (Inl e, w1)
              | None \<Rightarrow> (Inr (), w1\<lparr>files := (files w1)(path := None)\<rparr>))"

text \<open>
  \<^verbatim>\<open>await Promise.all([a, b])\<close>: both calls are made while the array is built, so both
  run whatever the other does. The result is fulfilled when both are, and rejected with
  the error of the first promise to reject otherwise. The world returned is the one after
  both calls have settled.
\<close>

definition Promise_all2 :: "env \<Rightarrow> unit io \<Rightarrow> unit io \<Rightarrow> unit io" where
  "Promise_all2 env a b w =
     (case a w of (ra, wa) \<Rightarrow>
        (case b wa of (rb, wb) \<Rightarrow>
           (case (ra, rb) of
              (Inr _, Inr _) \<Rightarrow> (Inr (), wb)
            | (Inl ea, Inr _) \<Rightarrow> (Inl ea, wb)
            | (Inr _, Inl eb) \<Rightarrow> (Inl eb, wb)
            | (Inl ea, Inl eb) \<Rightarrow> (Inl (if rm_race env then eb else ea), wb))))"

section \<open>\<^verbatim>\<open>getVideoAspectRatio\<close>\<close>

text \<open>
  Lines 103 to 110: the quotient of the two destructured values and its class. The
  comparisons are the source's, on the binary64 quotient and the binary64 literals.
\<close>

definition aspectRatioClass :: "jsnum \<Rightarrow> jsnum \<Rightarrow> string" where
  "aspectRatioClass width height =
     (let aspectRatio = js_div width height
      in if js_greater aspectRatio (js_literal (17 / 10)) \<and> js_less aspectRatio (js_literal (18 / 10))
         then ''landscape''
         else if js_greater aspectRatio (js_literal (5 / 10)) \<and> js_less aspectRatio (js_literal (6 / 10))
         then ''portrait''
         else ''other'')"

definition ffprobe_argv :: "string \<Rightarrow> string list" where
  "ffprobe_argv filepath =
     [''ffprobe'', ''-v'', ''error'', ''-select_streams'', ''v:0'', ''-show_entries'',
      ''stream=width,height'', ''-of'', ''json'', filepath]"

definition getVideoAspectRatio :: "env \<Rightarrow> string \<Rightarrow> string io" where
  "getVideoAspectRatio env filepath =
     io_bind (Bun_spawn env (ffprobe_argv filepath)) (\<lambda>process.
       if exitCode process \<noteq> 0
       then io_throw (Error (''ffprobe error: '' @ errorText process))
       else
     io_bind (io_lift (JSON_parse env (outputText process))) (\<lambda>stdoutJSON.
     io_bind (io_lift (js_member stdoutJSON ''streams'')) (\<lambda>streams.
       case streams of
         None \<Rightarrow> io_throw (Error ''No video streams found'')
       | Some ss \<Rightarrow>
           if \<not> js_truthy ss \<or> js_strict_eq_zero (js_length ss)
           then io_throw (Error ''No video streams found'')
           else
     io_bind (io_lift (js_destructure (js_index0 ss))) (\<lambda>(width, height).
     io_bind (io_lift (ToNumber (ToNumber_object env) width)) (\<lambda>w.
     io_bind (io_lift (ToNumber (ToNumber_object env) height)) (\<lambda>h.
     io_return (aspectRatioClass w h)))))))"

section \<open>\<^verbatim>\<open>processVideoForFastStart\<close>\<close>

definition ffmpeg_argv :: "string \<Rightarrow> string \<Rightarrow> string list" where
  "ffmpeg_argv inputFilePath processedFilePath =
     [''ffmpeg'', ''-i'', inputFilePath, ''-movflags'', ''faststart'', ''-map_metadata'', ''0'',
      ''-codec'', ''copy'', ''-f'', ''mp4'', processedFilePath]"

definition processVideoForFastStart :: "env \<Rightarrow> string \<Rightarrow> string io" where
  "processVideoForFastStart env inputFilePath =
     (let processedFilePath = inputFilePath @ ''.processed.mp4''
      in io_bind (Bun_spawn env (ffmpeg_argv inputFilePath processedFilePath)) (\<lambda>process.
           if exitCode process \<noteq> 0
           then io_throw (Error (''FFmpeg error: '' @ errorText process))
           else io_return processedFilePath))"

section \<open>\<^verbatim>\<open>handlerUploadVideo\<close>\<close>

text \<open>\<^verbatim>\<open>1 << 30\<close>: a shift on 32-bit signed integers.\<close>

definition MAX_UPLOAD_SIZE :: int where
  "MAX_UPLOAD_SIZE = sint (push_bit 30 (1 :: 32 word))"

definition respondWithJSON :: "nat \<Rightarrow> video \<Rightarrow> response" where
  "respondWithJSON code payload = \<lparr>status = code, body = payload\<rparr>"

text \<open>
  The body of \<^verbatim>\<open>handlerUploadVideo\<close> is given in three parts, in the order of the
  source. Lines 55 to 67: the upload to object storage, the update of the record, the
  deletion of both temporary files and the response.
\<close>

definition handlerUploadVideo_finish ::
  "env \<Rightarrow> ApiConfig \<Rightarrow> string \<Rightarrow> video \<Rightarrow> string \<Rightarrow> string \<Rightarrow> string \<Rightarrow> response io" where
  "handlerUploadVideo_finish env cfg videoId video tempFilePath aspectRatio processedFilePath =
     (let key = aspectRatio @ ''/'' @ videoId @ ''.mp4'' in
     io_bind (s3_upload env cfg key processedFilePath ''video/mp4'') (\<lambda>_.
     (let videoURL' = ''https://'' @ s3Bucket cfg @ ''.s3.'' @ s3Region cfg @ ''.amazonaws.com/'' @ key;
          video' = video\<lparr>videoURL := Some videoURL'\<rparr> in
     io_bind (db_update video') (\<lambda>_.
     io_bind (Promise_all2 env (rm_force env tempFilePath) (rm_force env processedFilePath)) (\<lambda>_.
     io_return (respondWithJSON 200 video'))))))"

text \<open>Lines 49 to 53: the temporary file, the probe and the transcoding.\<close>

definition handlerUploadVideo_store ::
  "env \<Rightarrow> ApiConfig \<Rightarrow> string \<Rightarrow> video \<Rightarrow> File \<Rightarrow> response io" where
  "handlerUploadVideo_store env cfg videoId video f =
     (let tempFilePath = path_join env ''/tmp'' (videoId @ ''.mp4'') in
     io_bind (Bun_write env tempFilePath f) (\<lambda>_.
     io_bind (getVideoAspectRatio env tempFilePath) (\<lambda>aspectRatio.
     io_bind (processVideoForFastStart env tempFilePath) (\<lambda>processedFilePath.
     handlerUploadVideo_finish env cfg videoId video tempFilePath aspectRatio processedFilePath))))"

text \<open>
  Lines 13 to 47: the path parameter (\<^verbatim>\<open>!videoId\<close> holds for a missing and for an empty
  one), the credential, the record and its owner, and the uploaded file.
\<close>

definition handlerUploadVideo :: "env \<Rightarrow> ApiConfig \<Rightarrow> request \<Rightarrow> response io" where
  "handlerUploadVideo env cfg req =
     (case params_videoId req of
        None \<Rightarrow> io_throw (BadRequestError ''Invalid video ID'')
      | Some videoId \<Rightarrow>
          if videoId = [] then io_throw (BadRequestError ''Invalid video ID'')
          else
     io_bind (io_lift (getBearerToken env (headers req))) (\<lambda>token.
     io_bind (io_lift (validateJWT env token (jwtSecret cfg))) (\<lambda>user.
     io_bind (\<lambda>w. (Inr (getVideo (db w) videoId), w)) (\<lambda>found.
       case found of
         None \<Rightarrow> io_throw (NotFoundError ''Video not found'')
       | Some video \<Rightarrow>
           if userID video \<noteq> user
           then io_throw (UserForbiddenError
                  (''User: '' @ user @ '' is not authorized to update this video''))
           else
     io_bind (io_lift (formData req)) (\<lambda>form.
       case map_of form ''video'' of
         None \<Rightarrow> io_throw (BadRequestError ''Video file missing'')
       | Some (FormString _) \<Rightarrow> io_throw (BadRequestError ''Video file missing'')
       | Some (FormFile f) \<Rightarrow>
           if int (fsize f) > MAX_UPLOAD_SIZE
           then io_throw (BadRequestError ''Video file exceeds the maximum allowed size of 1GB'')
           else if ftype f \<noteq> ''video/mp4''
           then io_throw (BadRequestError ''Invalid file type. Only MP4 allowed.'')
           else handlerUploadVideo_store env cfg videoId video f)))))"

section \<open>Concrete requests\<close>

text \<open>
  One stored video owned by \<open>alice\<close>, a configuration, and a well-formed upload of it;
  \<open>env0\<close> is a world where every collaborator succeeds: the probe reports 1920 by 1080,
  the transcoder copies its input to its output path, and deletions succeed. The other
  environments and requests differ from these in the one place their name says.
\<close>

definition cfg0 :: ApiConfig where
  "cfg0 = \<lparr>jwtSecret = ''s3cr3t'', s3Bucket = ''tubely'', s3Region = ''us-east-2''\<rparr>"

definition video0 :: video where
  "video0 = \<lparr>videoID = ''v1'', userID = ''alice'', videoURL = None\<rparr>"

definition file0 :: File where
  "file0 = \<lparr>fsize = 52428800, ftype = ''video/mp4'', fbytes = ''mp4-bytes''\<rparr>"

definition req0 :: request where
  "req0 = \<lparr>params_videoId = Some ''v1'',
           headers = [(''Authorization'', ''Bearer alice-token'')],
           formData = Inr [(''video'', FormFile file0)]\<rparr>"

definition world0 :: world where
  "world0 = \<lparr>db = [video0], files = Map.empty, s3 = Map.empty, trace = []\<rparr>"

definition probe_out :: string where
  \<open>probe_out = ''{"streams":[{"width":1920,"height":1080}]}''\<close>

definition probe_out_empty :: string where
  \<open>probe_out_empty = ''{"programs":[],"streams":[]}''\<close>

definition probe_out_bare :: string where
  \<open>probe_out_bare = ''{"programs":[]}''\<close>

definition env0 :: env where
  "env0 = \<lparr>
     getBearerToken = (\<lambda>h. case map_of h ''Authorization'' of
                             None \<Rightarrow> Inl (Thrown ''UserNotAuthenticatedError'' ''Malformed authorization header'')
                           | Some v \<Rightarrow> Inr (drop 7 v)),
     validateJWT = (\<lambda>token secret.
                      if token = ''alice-token'' then Inr ''alice''
                      else if token = ''bob-token'' then Inr ''bob''
                      else Inl (Thrown ''UserNotAuthenticatedError'' ''Invalid token'')),
     uploadVideoToS3 = (\<lambda>cfg key path contentType fs b.
                          case fs path of
                            None \<Rightarrow> Inl (Error ''ENOENT'')
                          | Some bytes \<Rightarrow> Inr (b(key \<mapsto> (bytes, contentType)))),
     path_join = (\<lambda>a b. a @ ''/'' @ b),
     JSON_parse = (\<lambda>s. if s = probe_out
                        then Inr (JObj [(''streams'',
                               JArr [JObj [(''width'', JNum (Num False (Fin 1920))),
                                           (''height'', JNum (Num False (Fin 1080)))]])])
                        else if s = probe_out_empty
                        then Inr (JObj [(''programs'', JArr []), (''streams'', JArr [])])
                        else if s = probe_out_bare
                        then Inr (JObj [(''programs'', JArr [])])
                        else Inl (Thrown ''SyntaxError'' ''JSON Parse error'')),
     ToNumber_object = (\<lambda>v. Inr NaN),
     spawn = (\<lambda>argv fs.
                if hd argv = ''ffprobe''
                then Inr (\<lparr>exitCode = 0, outputText = probe_out, errorText = []\<rparr>, fs)
                else Inr (\<lparr>exitCode = 0, outputText = [], errorText = []\<rparr>,
                          fs(last argv := fs (argv ! 2)))),
     write_error = (\<lambda>p. None),
     rm_error = (\<lambda>p. None),
     rm_race = False\<rparr>"

definition url0 :: string where
  "url0 = ''https://tubely.s3.us-east-2.amazonaws.com/landscape/v1.mp4''"

definition req_bob :: request where
  "req_bob = req0\<lparr>headers := [(''Authorization'', ''Bearer bob-token'')]\<rparr>"

definition req_empty_id :: request where
  "req_empty_id = req0\<lparr>params_videoId := Some []\<rparr>"

definition req_sized :: "nat \<Rightarrow> request" where
  "req_sized n = req0\<lparr>formData := Inr [(''video'', FormFile (file0\<lparr>fsize := n\<rparr>))]\<rparr>"

definition env_probe_exit2 :: env where
  "env_probe_exit2 =
     env0\<lparr>spawn := (\<lambda>argv fs. Inr (\<lparr>exitCode = 2, outputText = [], errorText = ''bad file''\<rparr>, fs))\<rparr>"

definition env_zero_streams :: env where
  "env_zero_streams =
     env0\<lparr>spawn := (\<lambda>argv fs. Inr (\<lparr>exitCode = 0, outputText = probe_out_empty, errorText = []\<rparr>, fs))\<rparr>"

definition env_no_streams_field :: env where
  "env_no_streams_field =
     env0\<lparr>spawn := (\<lambda>argv fs. Inr (\<lparr>exitCode = 0, outputText = probe_out_bare, errorText = []\<rparr>, fs))\<rparr>"

definition env_ffmpeg_exit1 :: env where
  "env_ffmpeg_exit1 =
     env0\<lparr>spawn := (\<lambda>argv fs. Inr (\<lparr>exitCode = 1, outputText = [], errorText = ''moov atom not found''\<rparr>, fs))\<rparr>"

definition env_rm_denied :: env where
  "env_rm_denied =
     env0\<lparr>rm_error := (\<lambda>p. if p = ''/tmp/v1.mp4''
                           then Some (Thrown ''SystemError'' ''EPERM: operation not permitted'')
                           else None)\<rparr>"

lemmas scen_defs = cfg0_def video0_def file0_def req0_def world0_def env0_def
  probe_out_def probe_out_empty_def probe_out_bare_def
  req_bob_def req_empty_id_def req_sized_def env_probe_exit2_def env_zero_streams_def
  env_no_streams_field_def env_ffmpeg_exit1_def env_rm_denied_def

lemma MAX_UPLOAD_SIZE_value: "MAX_UPLOAD_SIZE = 2 ^ 30"
  by (simp add: MAX_UPLOAD_SIZE_def)

section \<open>Stepping through a run\<close>

text \<open>
  The world after a step is \<open>snd\<close> of the step and its outcome is \<open>fst\<close>; the lemmas
  below say what each step leaves untouched and what it appends to the trace.
\<close>

lemma io_bind_alt:
  "io_bind m f w = (case fst (m w) of Inl e \<Rightarrow> (Inl e, snd (m w)) | Inr x \<Rightarrow> f x (snd (m w)))"
  by (simp add: io_bind_def split: prod.splits sum.splits)

lemmas io_defs = io_bind_alt io_throw_def io_lift_def io_return_def

lemma Bun_write_frame [simp]:
  "db (snd (Bun_write env p f w)) = db w"
  "s3 (snd (Bun_write env p f w)) = s3 w"
  "trace (snd (Bun_write env p f w)) = trace w @ [Write p]"
  by (auto simp: Bun_write_def emit_def Let_def split: option.splits)

lemma Bun_spawn_frame [simp]:
  "db (snd (Bun_spawn env argv w)) = db w"
  "s3 (snd (Bun_spawn env argv w)) = s3 w"
  "trace (snd (Bun_spawn env argv w)) = trace w @ [Spawn argv]"
  by (auto simp: Bun_spawn_def emit_def Let_def split: sum.splits prod.splits)

lemma probe_frame [simp]:
  "db (snd (getVideoAspectRatio env p w)) = db w"
  "s3 (snd (getVideoAspectRatio env p w)) = s3 w"
  "trace (snd (getVideoAspectRatio env p w)) = trace w @ [Spawn (ffprobe_argv p)]"
  by (auto simp: getVideoAspectRatio_def io_defs
      split: sum.splits prod.splits if_splits option.splits)

lemma transcode_frame [simp]:
  "db (snd (processVideoForFastStart env p w)) = db w"
  "s3 (snd (processVideoForFastStart env p w)) = s3 w"
  "trace (snd (processVideoForFastStart env p w)) =
     trace w @ [Spawn (ffmpeg_argv p (p @ ''.processed.mp4''))]"
  by (auto simp: processVideoForFastStart_def io_defs Let_def
      split: sum.splits prod.splits if_splits option.splits)

lemma transcode_result:
  "fst (processVideoForFastStart env p w) = Inr out \<Longrightarrow> out = p @ ''.processed.mp4''"
  by (auto simp: processVideoForFastStart_def io_defs Let_def
      split: sum.splits prod.splits if_splits option.splits)

lemma s3_upload_frame [simp]:
  "db (snd (s3_upload env cfg key p ct w)) = db w"
  "files (snd (s3_upload env cfg key p ct w)) = files w"
  "trace (snd (s3_upload env cfg key p ct w)) = trace w @ [S3Put key p ct]"
  by (auto simp: s3_upload_def emit_def Let_def split: sum.splits)

lemma s3_upload_result:
  "fst (s3_upload env cfg key p ct w) = Inr u \<Longrightarrow>
     uploadVideoToS3 env cfg key p ct (files w) (s3 w) = Inr (s3 (snd (s3_upload env cfg key p ct w)))"
  "fst (s3_upload env cfg key p ct w) = Inl e \<Longrightarrow>
     uploadVideoToS3 env cfg key p ct (files w) (s3 w) = Inl e \<and>
     s3 (snd (s3_upload env cfg key p ct w)) = s3 w"
  by (auto simp: s3_upload_def emit_def Let_def split: sum.splits)

lemma db_update_frame [simp]:
  "fst (db_update v w) = Inr ()"
  "db (snd (db_update v w)) = updateVideo (db w) v"
  "s3 (snd (db_update v w)) = s3 w"
  "files (snd (db_update v w)) = files w"
  "trace (snd (db_update v w)) = trace w @ [DbUpdate v]"
  by (auto simp: db_update_def emit_def)

lemma rm_force_frame [simp]:
  "db (snd (rm_force env p w)) = db w"
  "s3 (snd (rm_force env p w)) = s3 w"
  "trace (snd (rm_force env p w)) = trace w @ [Rm p]"
  by (auto simp: rm_force_def emit_def Let_def split: option.splits if_splits)

lemma Promise_all2_alt:
  "Promise_all2 env a b w =
     (case (fst (a w), fst (b (snd (a w)))) of
        (Inr _, Inr _) \<Rightarrow> Inr ()
      | (Inl ea, Inr _) \<Rightarrow> Inl ea
      | (Inr _, Inl eb) \<Rightarrow> Inl eb
      | (Inl ea, Inl eb) \<Rightarrow> Inl (if rm_race env then eb else ea),
      snd (b (snd (a w))))"
  by (cases "a w", cases "b (snd (a w))") (auto simp: Promise_all2_def split: sum.splits)

lemma cleanup_frame [simp]:
  "db (snd (Promise_all2 env (rm_force env a) (rm_force env b) w)) = db w"
  "s3 (snd (Promise_all2 env (rm_force env a) (rm_force env b) w)) = s3 w"
  "trace (snd (Promise_all2 env (rm_force env a) (rm_force env b) w)) = trace w @ [Rm a, Rm b]"
  by (simp_all add: Promise_all2_alt)

lemma rm_force_fst:
  "fst (rm_force env p w) =
     (if files w p = None then Inr ()
      else case rm_error env p of Some e \<Rightarrow> Inl e | None \<Rightarrow> Inr ())"
  by (simp add: rm_force_def emit_def Let_def split: option.splits)

lemma rm_force_files:
  "files (snd (rm_force env p w)) q =
     (if q = p \<and> (files w p = None \<or> rm_error env p = None) then None else files w q)"
  by (simp add: rm_force_def emit_def Let_def split: option.splits)

lemma cleanup_result:
  "(\<exists>u. fst (Promise_all2 env (rm_force env a) (rm_force env b) w) = Inr u) \<longleftrightarrow>
     files (snd (Promise_all2 env (rm_force env a) (rm_force env b) w)) a = None \<and>
     files (snd (Promise_all2 env (rm_force env a) (rm_force env b) w)) b = None"
  by (auto simp: Promise_all2_alt rm_force_fst rm_force_files split: sum.splits if_splits option.splits)

lemma cleanup_error:
  "fst (Promise_all2 env (rm_force env a) (rm_force env b) w) = Inl e \<Longrightarrow>
     rm_error env a = Some e \<or> rm_error env b = Some e"
  by (auto simp: Promise_all2_alt rm_force_fst rm_force_files split: sum.splits if_splits option.splits)

lemma finish_cases:
  assumes "handlerUploadVideo_finish env cfg videoId video tmp cls out w = (r, w')"
  shows "(let key = cls @ ''/'' @ videoId @ ''.mp4'';
              u = s3_upload env cfg key out ''video/mp4'' w;
              video' = video\<lparr>videoURL := Some (''https://'' @ s3Bucket cfg @ ''.s3.'' @ s3Region cfg @ ''.amazonaws.com/'' @ key)\<rparr>;
              c = Promise_all2 env (rm_force env tmp) (rm_force env out) (snd (db_update video' (snd u)))
          in (\<exists>e. fst u = Inl e \<and> r = Inl e \<and> w' = snd u)
           \<or> (fst u = Inr () \<and> w' = snd c \<and>
               r = (case fst c of Inl e \<Rightarrow> Inl e | Inr _ \<Rightarrow> Inr (respondWithJSON 200 video'))))"
  using assms
  by (auto simp: handlerUploadVideo_finish_def io_defs Let_def split: sum.splits)

lemma store_cases:
  assumes "handlerUploadVideo_store env cfg videoId video f w = (r, w')"
  shows "(let tmp = path_join env ''/tmp'' (videoId @ ''.mp4'');
              a = Bun_write env tmp f w;
              b = getVideoAspectRatio env tmp (snd a);
              t = processVideoForFastStart env tmp (snd b)
          in (\<exists>e. r = Inl e \<and> ((fst a = Inl e \<and> w' = snd a) \<or> (fst a = Inr () \<and> fst b = Inl e \<and> w' = snd b)
                  \<or> (fst a = Inr () \<and> (\<exists>cls. fst b = Inr cls) \<and> fst t = Inl e \<and> w' = snd t)))
           \<or> (\<exists>cls. fst a = Inr () \<and> fst b = Inr cls \<and> fst t = Inr (tmp @ ''.processed.mp4'') \<and>
                 handlerUploadVideo_finish env cfg videoId video tmp cls (tmp @ ''.processed.mp4'') (snd t) = (r, w')))"
  using assms
  by (auto simp: handlerUploadVideo_store_def io_defs Let_def split: sum.splits dest: transcode_result)

lemma handler_cases:
  assumes "handlerUploadVideo env cfg req w = (r, w')"
  shows "(\<exists>e. r = Inl e \<and> w' = w)
       \<or> (\<exists>videoId token video form f.
            params_videoId req = Some videoId \<and> videoId \<noteq> [] \<and>
            getBearerToken env (headers req) = Inr token \<and>
            validateJWT env token (jwtSecret cfg) = Inr (userID video) \<and>
            getVideo (db w) videoId = Some video \<and>
            formData req = Inr form \<and> map_of form ''video'' = Some (FormFile f) \<and>
            int (fsize f) \<le> MAX_UPLOAD_SIZE \<and> ftype f = ''video/mp4'' \<and>
            handlerUploadVideo_store env cfg videoId video f w = (r, w'))"
  using assms
  by (auto simp: handlerUploadVideo_def io_defs
      split: option.splits if_splits sum.splits form_entry.splits)

lemma handler_accept:
  assumes "params_videoId req = Some videoId" "videoId \<noteq> []"
    "getBearerToken env (headers req) = Inr token"
    "validateJWT env token (jwtSecret cfg) = Inr (userID video)"
    "getVideo (db w) videoId = Some video"
    "formData req = Inr form" "map_of form ''video'' = Some (FormFile f)"
    "int (fsize f) \<le> MAX_UPLOAD_SIZE" "ftype f = ''video/mp4''"
  shows "handlerUploadVideo env cfg req w = handlerUploadVideo_store env cfg videoId video f w"
  using assms by (simp add: handlerUploadVideo_def io_defs)

lemma Bun_write_files:
  "files (snd (Bun_write env p f w)) =
     (case write_error env p of Some e \<Rightarrow> files w | None \<Rightarrow> (files w)(p \<mapsto> fbytes f))"
  "fst (Bun_write env p f w) = (case write_error env p of Some e \<Rightarrow> Inl e | None \<Rightarrow> Inr ())"
  by (simp_all add: Bun_write_def emit_def Let_def split: option.splits)

lemma Bun_spawn_files:
  "files (snd (Bun_spawn env argv w)) =
     (case spawn env argv (files w) of Inl e \<Rightarrow> files w | Inr (p, fs') \<Rightarrow> fs')"
  "fst (Bun_spawn env argv w) =
     (case spawn env argv (files w) of Inl e \<Rightarrow> Inl e | Inr (p, fs') \<Rightarrow> Inr p)"
  by (simp_all add: Bun_spawn_def emit_def Let_def split: sum.splits prod.splits)

lemma probe_files:
  "files (snd (getVideoAspectRatio env p w)) = files (snd (Bun_spawn env (ffprobe_argv p) w))"
  by (auto simp: getVideoAspectRatio_def io_defs
      split: sum.splits prod.splits if_splits option.splits)

lemma transcode_files:
  "files (snd (processVideoForFastStart env p w)) =
     files (snd (Bun_spawn env (ffmpeg_argv p (p @ ''.processed.mp4'')) w))"
  by (auto simp: processVideoForFastStart_def io_defs Let_def
      split: sum.splits prod.splits if_splits option.splits)

lemma s3_upload_fst:
  "fst (s3_upload env cfg key p ct w) =
     (case uploadVideoToS3 env cfg key p ct (files w) (s3 w) of Inl e \<Rightarrow> Inl e | Inr b \<Rightarrow> Inr ())"
  by (simp add: s3_upload_def emit_def Let_def split: sum.splits)

lemma aspectRatioClass_range:
  "aspectRatioClass a b \<in> {''landscape'', ''portrait'', ''other''}"
  by (simp add: aspectRatioClass_def Let_def)

lemma probe_class_range:
  "fst (getVideoAspectRatio env p w) = Inr cls \<Longrightarrow> cls \<in> {''landscape'', ''portrait'', ''other''}"
  using aspectRatioClass_range
  by (auto simp: getVideoAspectRatio_def io_defs
      split: sum.splits prod.splits if_splits option.splits)

lemma getVideo_videoID: "getVideo d videoId = Some v \<Longrightarrow> videoID v = videoId"
  by (induction d) (auto simp: getVideo_def split: if_splits)

lemma getVideo_updateVideo:
  "getVideo d videoId = Some v \<Longrightarrow>
     getVideo (updateVideo d (v\<lparr>videoURL := u\<rparr>)) videoId = Some (v\<lparr>videoURL := u\<rparr>)"
proof (induction d)
  case Nil
  then show ?case by (simp add: getVideo_def)
next
  case (Cons x xs)
  show ?case
  proof (cases "videoID x = videoId")
    case True
    with Cons.prems have "x = v" by (simp add: getVideo_def)
    with True show ?thesis by (simp add: getVideo_def updateVideo_def)
  next
    case False
    with Cons.prems have r: "getVideo xs videoId = Some v" by (simp add: getVideo_def)
    then have "videoID v = videoId" by (rule getVideo_videoID)
    with False Cons.IH [OF r] show ?thesis by (simp add: getVideo_def updateVideo_def)
  qed
qed

lemma store_ok:
  assumes "fst (Bun_write env tmp f w) = Inr ()"
    and "fst (getVideoAspectRatio env tmp (snd (Bun_write env tmp f w))) = Inr cls"
    and "fst (processVideoForFastStart env tmp
           (snd (getVideoAspectRatio env tmp (snd (Bun_write env tmp f w))))) = Inr out"
    and "tmp = path_join env ''/tmp'' (videoId @ ''.mp4'')"
  shows "handlerUploadVideo_store env cfg videoId video f w =
           handlerUploadVideo_finish env cfg videoId video tmp cls out
             (snd (processVideoForFastStart env tmp
               (snd (getVideoAspectRatio env tmp (snd (Bun_write env tmp f w))))))"
  using assms by (simp add: handlerUploadVideo_store_def io_bind_alt Let_def)

lemma finish_ok:
  assumes "fst (s3_upload env cfg key out ''video/mp4'' w) = Inr ()"
    and "key = cls @ ''/'' @ videoId @ ''.mp4''"
    and "video' = video\<lparr>videoURL := Some (''https://'' @ s3Bucket cfg @ ''.s3.'' @ s3Region cfg @ ''.amazonaws.com/'' @ key)\<rparr>"
    and "c = Promise_all2 env (rm_force env tmp) (rm_force env out)
               (snd (db_update video' (snd (s3_upload env cfg key out ''video/mp4'' w))))"
  shows "handlerUploadVideo_finish env cfg videoId video tmp cls out w =
           (case fst c of Inl e \<Rightarrow> Inl e | Inr _ \<Rightarrow> Inr (respondWithJSON 200 video'), snd c)"
  using assms(1) unfolding assms(2-4)
  by (simp add: handlerUploadVideo_finish_def io_bind_alt io_return_def Let_def split: sum.splits)

section \<open>Rounding to binary64\<close>

text \<open>
  What \<open>round_double\<close> does on each binade that the four thresholds of the classification
  touch, and the values of the four literals. On \<open>[1, 2)\<close> the grid is \<open>2^-52\<close>, on
  \<open>[1/2, 1)\<close> it is \<open>2^-53\<close>. A quotient of integers with a denominator below \<open>2^31\<close>
  that differs from a threshold \<open>a/10\<close> differs from it by more than \<open>1/(10 * 2^31)\<close>, far
  more than half a grid step, so rounding never moves it across the rounded threshold.
\<close>

lemma two_powi_pos: "0 < (2::rat) powi k"
  by (simp add: power_int_def)

lemma two_powi_Suc: "(2::rat) powi (k + 1) = 2 * 2 powi k"
  by (simp add: power_int_add)

lemma two_powi_pred: "(2::rat) powi (k - 1) = 2 powi k / 2"
  by (simp add: power_int_diff)

lemma ilog2_bounds: "0 < x \<Longrightarrow> 2 powi (ilog2 x) \<le> x \<and> x < 2 powi (ilog2 x + 1)"
proof (induction x rule: ilog2.induct)
  case (1 x)
  show ?case
  proof (cases "2 \<le> x")
    case True
    then have e: "ilog2 x = ilog2 (x / 2) + 1" using "1.prems" by (subst ilog2.simps) simp
    have "2 powi (ilog2 (x / 2)) \<le> x / 2 \<and> x / 2 < 2 powi (ilog2 (x / 2) + 1)"
      using "1.IH"(1) True "1.prems" by simp
    then have "2 * 2 powi (ilog2 (x / 2)) \<le> x \<and> x < 2 * (2 * 2 powi (ilog2 (x / 2)))"
      by (simp add: two_powi_Suc)
    then show ?thesis
      unfolding e two_powi_Suc [of "ilog2 (x / 2) + 1"] two_powi_Suc [of "ilog2 (x / 2)"] .
  next
    case False
    show ?thesis
    proof (cases "x < 1")
      case True
      then have e: "ilog2 x = ilog2 (2 * x) - 1" using "1.prems" False by (subst ilog2.simps) simp
      have "2 powi (ilog2 (2 * x)) \<le> 2 * x \<and> 2 * x < 2 powi (ilog2 (2 * x) + 1)"
        using "1.IH"(2) True False "1.prems" by simp
      then show ?thesis unfolding e by (simp add: two_powi_Suc two_powi_pred)
    next
      case False
      with \<open>\<not> 2 \<le> x\<close> have "ilog2 x = 0" using "1.prems" by (subst ilog2.simps) simp
      with False \<open>\<not> 2 \<le> x\<close> show ?thesis by simp
    qed
  qed
qed

lemma ilog2_unit: "1 \<le> x \<Longrightarrow> x < 2 \<Longrightarrow> ilog2 x = 0"
  by (subst ilog2.simps) simp

lemma ilog2_half: "1 / 2 \<le> x \<Longrightarrow> x < 1 \<Longrightarrow> ilog2 x = - 1"
  by (subst ilog2.simps) (simp add: ilog2_unit)

lemma ilog2_ge2: assumes "2 \<le> x" shows "1 \<le> ilog2 x"
proof (rule ccontr)
  assume "\<not> 1 \<le> ilog2 x"
  then have "ilog2 x + 1 \<le> 1" by simp
  then have "(2::rat) powi (ilog2 x + 1) \<le> 2 powi 1"
    by (intro power_int_increasing) simp_all
  moreover have "x < 2 powi (ilog2 x + 1)" using ilog2_bounds [of x] assms by simp
  ultimately show False using assms by simp
qed

lemma ilog2_lt_half: assumes "0 < x" "x < 1 / 2" shows "ilog2 x \<le> - 2"
proof (rule ccontr)
  assume "\<not> ilog2 x \<le> - 2"
  then have "- 1 \<le> ilog2 x" by simp
  then have "(2::rat) powi (- 1) \<le> 2 powi (ilog2 x)"
    by (intro power_int_increasing) simp_all
  moreover have "2 powi (ilog2 x) \<le> x" using ilog2_bounds [of x] assms by simp
  ultimately show False using assms by (simp add: power_int_minus)
qed

lemma rhe_lower: "of_int k - 1 / 2 < y \<Longrightarrow> k \<le> round_half_even y"
  unfolding round_half_even_def Let_def by (auto split: if_splits) linarith+

lemma rhe_upper: "y < of_int k + 1 / 2 \<Longrightarrow> round_half_even y \<le> k"
  unfolding round_half_even_def Let_def by (auto split: if_splits) linarith+

lemma rhe_lower_le: "of_int k \<le> y \<Longrightarrow> k \<le> round_half_even y"
  by (rule rhe_lower) simp

lemma rhe_upper_le: "y \<le> of_int k \<Longrightarrow> round_half_even y \<le> k"
  by (rule rhe_upper) simp


lemma round_double_unit:
  assumes "1 \<le> x" "x < 2"
  shows "round_double x = Fin (of_int (round_half_even (x * 2 ^ 52)) / 2 ^ 52)"
proof -
  have "x * 2 ^ 52 \<le> of_int (2 ^ 53)" using assms by simp
  then have "round_half_even (x * 2 ^ 52) \<le> 2 ^ 53" by (rule rhe_upper_le)
  then have "(of_int (round_half_even (x * 2 ^ 52)) :: rat) \<le> of_int (2 ^ 53)"
    by (simp only: of_int_le_iff)
  then have "(of_int (round_half_even (x * 2 ^ 52)) :: rat) / 2 ^ 52 \<le> 2"
    by (simp add: field_simps)
  moreover have "(2::rat) < 2 ^ 1024" by simp
  ultimately have "\<not> (2::rat) ^ 1024 \<le> of_int (round_half_even (x * 2 ^ 52)) / 2 ^ 52"
    by linarith
  then show ?thesis
    using assms
    by (simp add: round_double_def ilog2_unit scale2_def Let_def)
qed


lemma round_double_half:
  assumes "1 / 2 \<le> x" "x < 1"
  shows "round_double x = Fin (of_int (round_half_even (x * 2 ^ 53)) / 2 ^ 53)"
proof -
  have "x * 2 ^ 53 \<le> of_int (2 ^ 53)" using assms by simp
  then have "round_half_even (x * 2 ^ 53) \<le> 2 ^ 53" by (rule rhe_upper_le)
  then have "(of_int (round_half_even (x * 2 ^ 53)) :: rat) \<le> of_int (2 ^ 53)"
    by (simp only: of_int_le_iff)
  then have "(of_int (round_half_even (x * 2 ^ 53)) :: rat) / 2 ^ 53 \<le> 1"
    by (simp add: field_simps)
  moreover have "(1::rat) < 2 ^ 1024" by simp
  ultimately have "\<not> (2::rat) ^ 1024 \<le> of_int (round_half_even (x * 2 ^ 53)) / 2 ^ 53"
    by linarith
  moreover have "x \<noteq> 0" using assms by simp
  ultimately show ?thesis
    using assms
    by (simp add: round_double_def ilog2_half scale2_def Let_def)
qed

lemma round_double_ge2:
  assumes "2 \<le> x"
  shows "round_double x = Infty \<or> (\<exists>r. round_double x = Fin r \<and> 2 \<le> r)"
proof -
  define k where "k = ilog2 x"
  have k: "1 \<le> k" unfolding k_def using assms by (rule ilog2_ge2)
  have x: "2 powi k \<le> x" unfolding k_def using ilog2_bounds [of x] assms by simp
  define n where "n = round_half_even (scale2 x (52 - k))"
  have "2 powi k * 2 powi (52 - k) \<le> x * 2 powi (52 - k)"
    using x two_powi_pos [of "52 - k"] by (simp only: mult_le_cancel_right_pos)
  moreover have "(2::rat) powi k * 2 powi (52 - k) = 2 powi 52"
    by (simp add: power_int_add [symmetric])
  ultimately have "of_int (2 ^ 52) \<le> scale2 x (52 - k)" by (simp add: scale2_def)
  then have "2 ^ 52 \<le> n" unfolding n_def by (rule rhe_lower_le)
  then have "(of_int (2 ^ 52) :: rat) \<le> of_int n" by (simp only: of_int_le_iff)
  then have A: "of_int (2 ^ 52) * 2 powi (k - 52) \<le> of_int n * (2::rat) powi (k - 52)"
    using two_powi_pos [of "k - 52"] by (simp only: mult_le_cancel_right_pos)
  have B: "(2::rat) powi k = of_int (2 ^ 52) * 2 powi (k - 52)"
  proof -
    have "(2::rat) powi (52 + (k - 52)) = 2 powi 52 * 2 powi (k - 52)"
      by (rule power_int_add) simp
    then show ?thesis by simp
  qed
  have "(2::rat) powi 1 \<le> 2 powi k" using k by (intro power_int_increasing) simp_all
  then have "(2::rat) \<le> 2 powi k" by simp
  also note B
  also note A
  finally have r: "2 \<le> scale2 (of_int n) (k - 52)" unfolding scale2_def .
  have e: "max (ilog2 x) (- 1022) = k" using k by (simp add: k_def)
  have "x \<noteq> 0" using assms by simp
  then have "round_double x = (if 2 ^ 1024 \<le> scale2 (of_int n) (k - 52) then Infty
                               else Fin (scale2 (of_int n) (k - 52)))"
    unfolding round_double_def e Let_def n_def by simp
  with r show ?thesis by simp
qed

lemma round_double_lt_half:
  assumes "0 < x" "x < 1 / 2"
  shows "\<exists>r. round_double x = Fin r \<and> 0 \<le> r \<and> r \<le> 1 / 2"
proof -
  define e where "e = max (ilog2 x) (- 1022)"
  have e2: "e \<le> - 2" unfolding e_def using ilog2_lt_half [OF assms] by simp
  have el: "ilog2 x + 1 \<le> e + 1" unfolding e_def by simp
  define n where "n = round_half_even (scale2 x (52 - e))"
  have "x < 2 powi (ilog2 x + 1)" using ilog2_bounds [of x] assms by simp
  also have "\<dots> \<le> 2 powi (e + 1)" using el by (intro power_int_increasing) simp_all
  finally have "x * 2 powi (52 - e) < 2 powi (e + 1) * 2 powi (52 - e)"
    using two_powi_pos [of "52 - e"] by (simp only: mult_less_cancel_right_pos)
  moreover have "(2::rat) powi (e + 1) * 2 powi (52 - e) = 2 powi 53"
    by (simp add: power_int_add [symmetric])
  ultimately have "scale2 x (52 - e) \<le> of_int (2 ^ 53)" by (simp add: scale2_def)
  then have "n \<le> 2 ^ 53" unfolding n_def by (rule rhe_upper_le)
  then have "(of_int n :: rat) \<le> of_int (2 ^ 53)" by (simp only: of_int_le_iff)
  then have A: "of_int n * 2 powi (e - 52) \<le> of_int (2 ^ 53) * (2::rat) powi (e - 52)"
    using two_powi_pos [of "e - 52"] by (simp only: mult_le_cancel_right_pos)
  have B: "(of_int (2 ^ 53) :: rat) * 2 powi (e - 52) = 2 powi (e + 1)"
  proof -
    have "(2::rat) powi (53 + (e - 52)) = 2 powi 53 * 2 powi (e - 52)"
      by (rule power_int_add) simp
    moreover have "53 + (e - 52) = e + 1" by simp
    ultimately show ?thesis by simp
  qed
  have "(2::rat) powi (e + 1) \<le> 2 powi (- 1)" using e2 by (intro power_int_increasing) simp_all
  then have C: "(2::rat) powi (e + 1) \<le> 1 / 2" by (simp add: power_int_minus)
  note A
  also note B
  also note C
  finally have hi: "scale2 (of_int n) (e - 52) \<le> 1 / 2" unfolding scale2_def .
  have "of_int 0 \<le> scale2 x (52 - e)"
    using assms two_powi_pos [of "52 - e"] by (simp add: scale2_def)
  then have "0 \<le> n" unfolding n_def by (rule rhe_lower_le)
  then have lo: "0 \<le> scale2 (of_int n) (e - 52)"
    using two_powi_pos [of "e - 52"] by (simp add: scale2_def)
  have "(1::rat) / 2 < 2 ^ 1024" by simp
  with hi have no: "\<not> 2 ^ 1024 \<le> scale2 (of_int n) (e - 52)" by linarith
  have "x \<noteq> 0" using assms by simp
  then have "round_double x = Fin (scale2 (of_int n) (e - 52))"
    unfolding round_double_def e_def [symmetric] Let_def n_def [symmetric] using no by simp
  with hi lo show ?thesis by simp
qed

lemma rhe_eq: "of_int k - 1 / 2 < y \<Longrightarrow> y < of_int k + 1 / 2 \<Longrightarrow> round_half_even y = k"
  using rhe_lower [of k y] rhe_upper [of y k] by simp

lemma literal_17: "js_literal (17 / 10) = Num False (Fin (7656119366529843 / 2 ^ 52))"
proof -
  have "round_half_even (17 / 10 * 2 ^ 52) = 7656119366529843" by (rule rhe_eq) simp_all
  then show ?thesis by (simp add: js_literal_def round_double_unit)
qed

lemma literal_18: "js_literal (18 / 10) = Num False (Fin (8106479329266893 / 2 ^ 52))"
proof -
  have "round_half_even (18 / 10 * 2 ^ 52) = 8106479329266893" by (rule rhe_eq) simp_all
  then show ?thesis by (simp add: js_literal_def round_double_unit)
qed

lemma literal_05: "js_literal (5 / 10) = Num False (Fin (1 / 2))"
proof -
  have "round_half_even (5 / 10 * 2 ^ 53) = 4503599627370496" by (rule rhe_eq) simp_all
  then show ?thesis by (simp add: js_literal_def round_double_half)
qed

lemma literal_06: "js_literal (6 / 10) = Num False (Fin (5404319552844595 / 2 ^ 53))"
proof -
  have "round_half_even (6 / 10 * 2 ^ 53) = 5404319552844595" by (rule rhe_eq) simp_all
  then show ?thesis by (simp add: js_literal_def round_double_half)
qed


lemma grid_gap_above:
  fixes p q a :: int
  assumes q: "0 < q" "q < 2 ^ 31" and lt: "(of_int a :: rat) / 10 < of_int p / of_int q"
  shows "(of_int a :: rat) / 10 + 1 / (10 * 2 ^ 31) < of_int p / of_int q"
proof -
  have q': "(0::rat) < of_int q" using q by simp
  from lt q' have "(of_int (a * q) :: rat) < of_int (10 * p)" by (simp add: field_simps)
  then have "a * q < 10 * p" by (simp only: of_int_less_iff)
  then have "a * q + 1 \<le> 10 * p" by simp
  then have "(of_int (a * q + 1) :: rat) \<le> of_int (10 * p)" by (simp only: of_int_le_iff)
  then have "(of_int (a * q + 1) :: rat) / (10 * of_int q) \<le> of_int (10 * p) / (10 * of_int q)"
    using q' by (intro divide_right_mono) simp_all
  moreover have "(of_int (a * q + 1) :: rat) / (10 * of_int q) = of_int a / 10 + 1 / (10 * of_int q)"
    using q' by (simp add: add_divide_distrib)
  moreover have "(of_int (10 * p) :: rat) / (10 * of_int q) = of_int p / of_int q"
    by simp
  ultimately have "(of_int a :: rat) / 10 + 1 / (10 * of_int q) \<le> of_int p / of_int q"
    by (simp only:)
  moreover have "(of_int q :: rat) < of_int (2 ^ 31)" using q by (simp only: of_int_less_iff)
  then have "(1::rat) / (10 * 2 ^ 31) < 1 / (10 * of_int q)" using q' by (simp add: field_simps)
  ultimately show ?thesis by linarith
qed

lemma grid_gap_below:
  fixes p q a :: int
  assumes q: "0 < q" "q < 2 ^ 31" and lt: "(of_int p :: rat) / of_int q < of_int a / 10"
  shows "(of_int p :: rat) / of_int q < of_int a / 10 - 1 / (10 * 2 ^ 31)"
proof -
  have q': "(0::rat) < of_int q" using q by simp
  from lt q' have "(of_int (10 * p) :: rat) < of_int (a * q)" by (simp add: field_simps)
  then have "10 * p < a * q" by (simp only: of_int_less_iff)
  then have "10 * p \<le> a * q - 1" by simp
  then have "(of_int (10 * p) :: rat) \<le> of_int (a * q - 1)" by (simp only: of_int_le_iff)
  then have "(of_int (10 * p) :: rat) / (10 * of_int q) \<le> of_int (a * q - 1) / (10 * of_int q)"
    using q' by (intro divide_right_mono) simp_all
  moreover have "(of_int (a * q - 1) :: rat) / (10 * of_int q) = of_int a / 10 - 1 / (10 * of_int q)"
    using q' by (simp add: diff_divide_distrib)
  moreover have "(of_int (10 * p) :: rat) / (10 * of_int q) = of_int p / of_int q"
    by simp
  ultimately have "(of_int p :: rat) / of_int q \<le> of_int a / 10 - 1 / (10 * of_int q)"
    by (simp only:)
  moreover have "(of_int q :: rat) < of_int (2 ^ 31)" using q by (simp only: of_int_less_iff)
  then have "(1::rat) / (10 * 2 ^ 31) < 1 / (10 * of_int q)" using q' by (simp add: field_simps)
  ultimately show ?thesis by linarith
qed

lemma round_double_zero: "round_double 0 = Fin 0"
  by (simp add: round_double_def)

lemma shape_unit:
  assumes "1 \<le> x" "x < 2"
  shows "\<exists>n. round_double x = Fin (of_int n / 2 ^ 52) \<and> n = round_half_even (x * 2 ^ 52) \<and>
             2 ^ 52 \<le> n \<and> n \<le> 2 ^ 53"
proof -
  have "of_int (2 ^ 52) \<le> x * 2 ^ 52" using assms by simp
  then have lo: "2 ^ 52 \<le> round_half_even (x * 2 ^ 52)" by (rule rhe_lower_le)
  have "x * 2 ^ 52 \<le> of_int (2 ^ 53)" using assms by simp
  then have hi: "round_half_even (x * 2 ^ 52) \<le> 2 ^ 53" by (rule rhe_upper_le)
  from lo hi round_double_unit [OF assms] show ?thesis by blast
qed

lemma shape_half:
  assumes "1 / 2 \<le> x" "x < 1"
  shows "\<exists>n. round_double x = Fin (of_int n / 2 ^ 53) \<and> n = round_half_even (x * 2 ^ 53) \<and>
             2 ^ 52 \<le> n \<and> n \<le> 2 ^ 53"
proof -
  have "of_int (2 ^ 52) \<le> x * 2 ^ 53" using assms by simp
  then have lo: "2 ^ 52 \<le> round_half_even (x * 2 ^ 53)" by (rule rhe_lower_le)
  have "x * 2 ^ 53 \<le> of_int (2 ^ 53)" using assms by simp
  then have hi: "round_half_even (x * 2 ^ 53) \<le> 2 ^ 53" by (rule rhe_upper_le)
  from lo hi round_double_half [OF assms] show ?thesis by blast
qed


lemma rounded_compare:
  fixes p q a N :: int and S :: rat
  assumes q: "0 < q" "q < 2 ^ 31" and S: "0 < S"
    and i: "of_int a / 10 * S < of_int N + 1 / 2"
    and ii: "of_int N + 1 / 2 < (of_int a / 10 + 1 / (10 * 2 ^ 31)) * S"
    and iii: "of_int N - 1 / 2 < of_int a / 10 * S"
    and iv: "(of_int a / 10 - 1 / (10 * 2 ^ 31)) * S < of_int N - 1 / 2"
  shows "N < round_half_even (of_int p / of_int q * S) \<longleftrightarrow> of_int a / 10 < (of_int p / of_int q :: rat)"
    and "round_half_even (of_int p / of_int q * S) < N \<longleftrightarrow> (of_int p / of_int q :: rat) < of_int a / 10"
proof -
  define x :: rat where "x = of_int p / of_int q"
  have gt: "N < round_half_even (x * S)" if "of_int a / 10 < x"
  proof -
    from that have "of_int a / 10 + 1 / (10 * 2 ^ 31) < x"
      unfolding x_def using q by (intro grid_gap_above)
    then have "(of_int a / 10 + 1 / (10 * 2 ^ 31)) * S < x * S"
      using S by (simp only: mult_less_cancel_right_pos)
    with ii have "of_int (N + 1) - 1 / 2 < x * S" by simp
    then have "N + 1 \<le> round_half_even (x * S)" by (rule rhe_lower)
    then show ?thesis by simp
  qed
  have le: "round_half_even (x * S) \<le> N" if "x \<le> of_int a / 10"
  proof -
    from that have "x * S \<le> of_int a / 10 * S"
      using S by (simp only: mult_le_cancel_right_pos)
    with i have "x * S < of_int N + 1 / 2" by simp
    then show ?thesis by (rule rhe_upper)
  qed
  have lt: "round_half_even (x * S) < N" if "x < of_int a / 10"
  proof -
    from that have "x < of_int a / 10 - 1 / (10 * 2 ^ 31)"
      unfolding x_def using q by (intro grid_gap_below)
    then have "x * S < (of_int a / 10 - 1 / (10 * 2 ^ 31)) * S"
      using S by (simp only: mult_less_cancel_right_pos)
    with iv have "x * S < of_int (N - 1) + 1 / 2" by simp
    then have "round_half_even (x * S) \<le> N - 1" by (rule rhe_upper)
    then show ?thesis by simp
  qed
  have ge: "N \<le> round_half_even (x * S)" if "of_int a / 10 \<le> x"
  proof -
    from that have "of_int a / 10 * S \<le> x * S"
      using S by (simp only: mult_le_cancel_right_pos)
    with iii have "of_int N - 1 / 2 < x * S" by simp
    then show ?thesis by (rule rhe_lower)
  qed
  show "N < round_half_even (of_int p / of_int q * S) \<longleftrightarrow> of_int a / 10 < (of_int p / of_int q :: rat)"
    using gt le unfolding x_def [symmetric] by (cases "of_int a / 10 < x") (auto simp: not_less)
  show "round_half_even (of_int p / of_int q * S) < N \<longleftrightarrow> (of_int p / of_int q :: rat) < of_int a / 10"
    using lt ge unfolding x_def [symmetric] by (cases "x < of_int a / 10") (auto simp: not_less)
qed

lemma cmp_17:
  fixes p q :: int
  assumes "0 < q" "q < 2 ^ 31"
  shows "7656119366529843 < round_half_even (of_int p / of_int q * 2 ^ 52) \<longleftrightarrow>
           17 / 10 < (of_int p / of_int q :: rat)"
  using rounded_compare(1) [where a = 17 and N = 7656119366529843 and S = "2 ^ 52" and p = p and q = q]
    assms by simp

lemma cmp_18:
  fixes p q :: int
  assumes "0 < q" "q < 2 ^ 31"
  shows "round_half_even (of_int p / of_int q * 2 ^ 52) < 8106479329266893 \<longleftrightarrow>
           (of_int p / of_int q :: rat) < 18 / 10"
  using rounded_compare(2) [where a = 18 and N = 8106479329266893 and S = "2 ^ 52" and p = p and q = q]
    assms by simp

lemma cmp_05:
  fixes p q :: int
  assumes "0 < q" "q < 2 ^ 31"
  shows "4503599627370496 < round_half_even (of_int p / of_int q * 2 ^ 53) \<longleftrightarrow>
           5 / 10 < (of_int p / of_int q :: rat)"
  using rounded_compare(1) [where a = 5 and N = 4503599627370496 and S = "2 ^ 53" and p = p and q = q]
    assms by simp

lemma cmp_06:
  fixes p q :: int
  assumes "0 < q" "q < 2 ^ 31"
  shows "round_half_even (of_int p / of_int q * 2 ^ 53) < 5404319552844595 \<longleftrightarrow>
           (of_int p / of_int q :: rat) < 6 / 10"
  using rounded_compare(2) [where a = 6 and N = 5404319552844595 and S = "2 ^ 53" and p = p and q = q]
    assms by simp

lemma literal_norm:
  "js_literal (9 / 5) = Num False (Fin (8106479329266893 / 2 ^ 52))"
  "js_literal (1 / 2) = Num False (Fin (1 / 2))"
  "js_literal (3 / 5) = Num False (Fin (5404319552844595 / 2 ^ 53))"
  using literal_18 literal_05 literal_06 by simp_all

lemmas literals = literal_17 literal_18 literal_05 literal_06 literal_norm

lemma class_of_ratio:
  fixes p q :: int
  assumes p: "0 \<le> p" and q: "0 < q" "q < 2 ^ 31"
  shows "aspectRatioClass (js_int p) (js_int q) =
           (if 17 / 10 < (of_int p / of_int q :: rat) \<and> (of_int p / of_int q :: rat) < 18 / 10
            then ''landscape''
            else if 5 / 10 < (of_int p / of_int q :: rat) \<and> (of_int p / of_int q :: rat) < 6 / 10
            then ''portrait''
            else ''other'')"
proof -
  define x :: rat where "x = of_int p / of_int q"
  have x0: "0 \<le> x" using p q by (simp add: x_def)
  have dv: "js_div (js_int p) (js_int q) = Num False (round_double x)"
    using p q by (simp add: js_int_def x_def)
  have cls: "aspectRatioClass (js_int p) (js_int q) =
       (if js_less (js_literal (17 / 10)) (Num False (round_double x)) \<and>
           js_less (Num False (round_double x)) (js_literal (18 / 10))
        then ''landscape''
        else if js_less (js_literal (5 / 10)) (Num False (round_double x)) \<and>
                js_less (Num False (round_double x)) (js_literal (6 / 10))
        then ''portrait'' else ''other'')"
    unfolding aspectRatioClass_def Let_def dv js_greater_def ..
  consider (zero) "x = 0" | (tiny) "0 < x" "x < 1 / 2" | (half) "1 / 2 \<le> x" "x < 1"
    | (unit) "1 \<le> x" "x < 2" | (big) "2 \<le> x"
    using x0 by linarith
  then have "aspectRatioClass (js_int p) (js_int q) =
           (if 17 / 10 < x \<and> x < 18 / 10 then ''landscape''
            else if 5 / 10 < x \<and> x < 6 / 10 then ''portrait'' else ''other'')"
  proof cases
    case zero
    then show ?thesis
      unfolding cls by (simp add: round_double_zero literals signed_def)
  next
    case tiny
    from round_double_lt_half [OF tiny] obtain r where
      "round_double x = Fin r" "0 \<le> r" "r \<le> 1 / 2" by blast
    with tiny show ?thesis
      unfolding cls by (simp add: literals signed_def)
  next
    case half
    from shape_half [OF half] obtain n where
      n: "round_double x = Fin (of_int n / 2 ^ 53)" "n = round_half_even (x * 2 ^ 53)"
        "2 ^ 52 \<le> n" "n \<le> 2 ^ 53" by blast
    have a: "4503599627370496 < n \<longleftrightarrow> 5 / 10 < x"
      unfolding n(2) x_def using q by (rule cmp_05)
    have b: "n < 5404319552844595 \<longleftrightarrow> x < 6 / 10"
      unfolding n(2) x_def using q by (rule cmp_06)
    from half n(3,4) a b show ?thesis
      unfolding cls n(1) by (simp add: literals signed_def)
  next
    case unit
    from shape_unit [OF unit] obtain n where
      n: "round_double x = Fin (of_int n / 2 ^ 52)" "n = round_half_even (x * 2 ^ 52)"
        "2 ^ 52 \<le> n" "n \<le> 2 ^ 53" by blast
    have a: "7656119366529843 < n \<longleftrightarrow> 17 / 10 < x"
      unfolding n(2) x_def using q by (rule cmp_17)
    have b: "n < 8106479329266893 \<longleftrightarrow> x < 18 / 10"
      unfolding n(2) x_def using q by (rule cmp_18)
    from unit n(3,4) a b show ?thesis
      unfolding cls n(1) by (simp add: literals signed_def)
  next
    case big
    from round_double_ge2 [OF big] consider "round_double x = Infty"
      | r where "round_double x = Fin r" "2 \<le> r" by blast
    then show ?thesis
    proof cases
      case 1
      with big show ?thesis unfolding cls by (simp add: literals signed_def)
    next
      case 2
      with big show ?thesis unfolding cls by (simp add: literals signed_def)
    qed
  qed
  then show ?thesis unfolding x_def .
qed

lemma class_1920_1080:
  "aspectRatioClass (Num False (Fin 1920)) (Num False (Fin 1080)) = ''landscape''"
  using class_of_ratio [of 1920 1080] by (simp add: js_int_def)

lemma bands_disjoint:
  assumes "js_less (js_literal (17 / 10)) r"
  shows "\<not> js_less r (js_literal (6 / 10))"
proof (cases r)
  case NaN
  then show ?thesis by simp
next
  case (Num s m)
  with assms show ?thesis by (cases m) (auto simp: literals signed_def split: if_splits)
qed

lemma round_double_nonneg:
  assumes "0 \<le> x"
  shows "round_double x = Infty \<or> (\<exists>r. round_double x = Fin r \<and> 0 \<le> r)"
proof -
  consider (zero) "x = 0" | (tiny) "0 < x" "x < 1 / 2" | (half) "1 / 2 \<le> x" "x < 1"
    | (unit) "1 \<le> x" "x < 2" | (big) "2 \<le> x"
    using assms by linarith
  then show ?thesis
  proof cases
    case zero
    then show ?thesis by (simp add: round_double_zero)
  next
    case tiny
    from round_double_lt_half [OF tiny] show ?thesis by blast
  next
    case half
    from shape_half [OF half] obtain n where
      n: "round_double x = Fin (of_int n / 2 ^ 53)" "2 ^ 52 \<le> n" by blast
    from n(2) have "(0::rat) \<le> of_int n / 2 ^ 53" by simp
    with n(1) show ?thesis by blast
  next
    case unit
    from shape_unit [OF unit] obtain n where
      n: "round_double x = Fin (of_int n / 2 ^ 52)" "2 ^ 52 \<le> n" by blast
    from n(2) have "(0::rat) \<le> of_int n / 2 ^ 52" by simp
    with n(1) show ?thesis by blast
  next
    case big
    from round_double_ge2 [OF big] show ?thesis by force
  qed
qed

lemma class_negative:
  assumes "0 \<le> x"
  shows "(let aspectRatio = Num True (round_double x)
          in if js_greater aspectRatio (js_literal (17 / 10)) \<and> js_less aspectRatio (js_literal (18 / 10))
             then ''landscape''
             else if js_greater aspectRatio (js_literal (5 / 10)) \<and> js_less aspectRatio (js_literal (6 / 10))
             then ''portrait''
             else ''other'') = ''other''"
  using round_double_nonneg [OF assms]
  by (auto simp: Let_def js_greater_def literals signed_def)

lemma class_of_ratio_signed:
  fixes p q :: int
  assumes q: "q \<noteq> 0" "\<bar>q\<bar> < 2 ^ 31"
  shows "aspectRatioClass (js_int p) (js_int q) =
           (if 17 / 10 < (of_int p / of_int q :: rat) \<and> (of_int p / of_int q :: rat) < 18 / 10
            then ''landscape''
            else if 5 / 10 < (of_int p / of_int q :: rat) \<and> (of_int p / of_int q :: rat) < 6 / 10
            then ''portrait''
            else ''other'')"
proof -
  consider (zero) "p = 0" | (same) "p \<noteq> 0" "(p < 0) = (q < 0)" | (differ) "p \<noteq> 0" "(p < 0) \<noteq> (q < 0)"
    by blast
  then show ?thesis
  proof cases
    case zero
    have "js_div (js_int p) (js_int q) = Num (q < 0) (Fin 0)"
      using zero q by (simp add: js_int_def round_double_zero)
    then have "aspectRatioClass (js_int p) (js_int q) = ''other''"
      by (simp add: aspectRatioClass_def Let_def js_greater_def literals signed_def)
    with zero show ?thesis by simp
  next
    case same
    have q': "0 < \<bar>q\<bar>" using q by simp
    have "js_div (js_int p) (js_int q) = js_div (js_int \<bar>p\<bar>) (js_int \<bar>q\<bar>)"
      using same q by (simp add: js_int_def)
    then have eq: "aspectRatioClass (js_int p) (js_int q) = aspectRatioClass (js_int \<bar>p\<bar>) (js_int \<bar>q\<bar>)"
      by (simp add: aspectRatioClass_def)
    have ratio: "(of_int \<bar>p\<bar> / of_int \<bar>q\<bar> :: rat) = of_int p / of_int q"
      using same q by (auto simp: abs_if)
    show ?thesis
      unfolding eq using class_of_ratio [of "\<bar>p\<bar>" "\<bar>q\<bar>"] q' q(2) unfolding ratio by simp
  next
    case differ
    have x0: "(0::rat) \<le> of_int \<bar>p\<bar> / of_int \<bar>q\<bar>" by simp
    have dv: "js_div (js_int p) (js_int q) = Num True (round_double (of_int \<bar>p\<bar> / of_int \<bar>q\<bar>))"
      using differ q by (simp add: js_int_def)
    have "aspectRatioClass (js_int p) (js_int q) = ''other''"
      unfolding aspectRatioClass_def dv by (rule class_negative [OF x0])
    moreover have neg: "(of_int p / of_int q :: rat) < 0"
      using differ q by (auto simp: divide_less_0_iff not_less)
    moreover from neg have "\<not> 17 / 10 < (of_int p / of_int q :: rat)" by linarith
    moreover from neg have "\<not> 5 / 10 < (of_int p / of_int q :: rat)" by linarith
    ultimately show ?thesis by simp
  qed
qed

lemma class_zero_height: "aspectRatioClass (js_int p) (js_int 0) = ''other''"
  by (simp add: aspectRatioClass_def js_int_def Let_def js_greater_def literals signed_def)

lemma probe_class:
  assumes "spawn env (ffprobe_argv p) (files st) = Inr (pr, fs')" and "exitCode pr = 0"
    and "JSON_parse env (outputText pr) = Inr (JObj props)"
    and "map_of props ''streams'' = Some (JArr (JObj sprops # rest))"
    and "map_of sprops ''width'' = Some (JNum a)"
    and "map_of sprops ''height'' = Some (JNum b)"
  shows "fst (getVideoAspectRatio env p st) = Inr (aspectRatioClass a b)"
  using assms by (simp add: getVideoAspectRatio_def io_defs Bun_spawn_files)

section \<open>The concrete runs\<close>

text \<open>
  The upload \<open>req0\<close> run in \<open>env0\<close> and in the environments that share its subprocesses:
  every step up to the deletion of the temporary files succeeds, the record holds the
  new URL, and the outcome is the outcome of the two deletions.
\<close>

lemma probe_env0:
  assumes "spawn env = spawn env0" and "JSON_parse env = JSON_parse env0"
  shows "fst (getVideoAspectRatio env p w) = Inr ''landscape''"
    and "files (snd (getVideoAspectRatio env p w)) = files w"
  using assms
  by (simp_all add: getVideoAspectRatio_def io_defs Bun_spawn_files probe_files env0_def
      ffprobe_argv_def class_1920_1080)

lemma transcode_env0:
  assumes "spawn env = spawn env0"
  shows "fst (processVideoForFastStart env p w) = Inr (p @ ''.processed.mp4'')"
    and "files (snd (processVideoForFastStart env p w)) = (files w)(p @ ''.processed.mp4'' := files w p)"
  using assms
  by (simp_all add: processVideoForFastStart_def io_defs Bun_spawn_files transcode_files env0_def
      ffmpeg_argv_def Let_def)

lemma run_to_cleanup:
  assumes "spawn env = spawn env0" and "JSON_parse env = JSON_parse env0"
    and "getBearerToken env = getBearerToken env0" and "validateJWT env = validateJWT env0"
    and "path_join env = path_join env0" and "write_error env = write_error env0"
    and "uploadVideoToS3 env = uploadVideoToS3 env0"
  shows "\<exists>w5. files w5 ''/tmp/v1.mp4'' \<noteq> None \<and>
               db w5 = [video0\<lparr>videoURL := Some url0\<rparr>] \<and> trace w5 \<noteq> [] \<and>
               handlerUploadVideo env cfg0 req0 world0 =
                 (case fst (Promise_all2 env (rm_force env ''/tmp/v1.mp4'')
                              (rm_force env ''/tmp/v1.mp4.processed.mp4'') w5) of
                    Inl e \<Rightarrow> Inl e
                  | Inr _ \<Rightarrow> Inr \<lparr>status = 200, body = video0\<lparr>videoURL := Some url0\<rparr>\<rparr>,
                  snd (Promise_all2 env (rm_force env ''/tmp/v1.mp4'')
                              (rm_force env ''/tmp/v1.mp4.processed.mp4'') w5))"
proof -
  define tmp where "tmp = ''/tmp/v1.mp4''"
  define out where "out = ''/tmp/v1.mp4.processed.mp4''"
  define key where "key = ''landscape/v1.mp4''"
  define video' where "video' = video0\<lparr>videoURL := Some url0\<rparr>"
  have acc: "handlerUploadVideo env cfg0 req0 world0 =
               handlerUploadVideo_store env cfg0 ''v1'' video0 file0 world0"
    by (rule handler_accept [where token = "''alice-token''" and form = "[(''video'', FormFile file0)]"])
      (simp_all add: assms req0_def env0_def world0_def video0_def file0_def getVideo_def
        MAX_UPLOAD_SIZE_value)
  have tmp: "tmp = path_join env ''/tmp'' (''v1'' @ ''.mp4'')"
    by (simp add: assms env0_def tmp_def)
  have out: "out = tmp @ ''.processed.mp4''" by (simp add: tmp_def out_def)
  define w1 where "w1 = snd (Bun_write env tmp file0 world0)"
  define w2 where "w2 = snd (getVideoAspectRatio env tmp w1)"
  define w3 where "w3 = snd (processVideoForFastStart env tmp w2)"
  define w4 where "w4 = snd (s3_upload env cfg0 key out ''video/mp4'' w3)"
  define w5 where "w5 = snd (db_update video' w4)"
  have a: "fst (Bun_write env tmp file0 world0) = Inr ()"
    by (simp add: Bun_write_files assms env0_def)
  have f1: "files w1 tmp = Some ''mp4-bytes''"
    by (simp add: w1_def Bun_write_files assms env0_def file0_def)
  have b: "fst (getVideoAspectRatio env tmp w1) = Inr ''landscape''"
    by (rule probe_env0 [OF assms(1,2)])
  have f2: "files w2 = files w1" unfolding w2_def by (rule probe_env0 [OF assms(1,2)])
  have t: "fst (processVideoForFastStart env tmp w2) = Inr out"
    unfolding out by (rule transcode_env0 [OF assms(1)])
  have f3: "files w3 = (files w2)(out := files w2 tmp)"
    unfolding w3_def out by (rule transcode_env0 [OF assms(1)])
  have f3': "files w3 tmp = Some ''mp4-bytes''" "files w3 out = Some ''mp4-bytes''"
    by (simp_all add: f3 f2 f1)
  have u: "fst (s3_upload env cfg0 key out ''video/mp4'' w3) = Inr ()"
    by (simp add: s3_upload_fst assms env0_def f3')
  have f5: "files w5 tmp = Some ''mp4-bytes''"
    by (simp add: w5_def w4_def f3')
  have d5: "db w5 = [video']"
    by (simp add: w5_def w4_def w3_def w2_def w1_def world0_def updateVideo_def video'_def)
  have t5: "trace w5 \<noteq> []" by (simp add: w5_def)
  have st: "handlerUploadVideo_store env cfg0 ''v1'' video0 file0 world0 =
              handlerUploadVideo_finish env cfg0 ''v1'' video0 tmp ''landscape'' out w3"
    unfolding w3_def w2_def w1_def
    by (rule store_ok) (use a b t tmp in \<open>simp_all add: w1_def w2_def\<close>)
  have fin: "handlerUploadVideo_finish env cfg0 ''v1'' video0 tmp ''landscape'' out w3 =
        (case fst (Promise_all2 env (rm_force env tmp) (rm_force env out) w5) of
           Inl e \<Rightarrow> Inl e | Inr _ \<Rightarrow> Inr (respondWithJSON 200 video'),
         snd (Promise_all2 env (rm_force env tmp) (rm_force env out) w5))"
    by (rule finish_ok [where key = key and video' = video', OF u])
      (simp_all add: key_def video'_def url0_def cfg0_def w5_def w4_def)
  have run: "handlerUploadVideo env cfg0 req0 world0 =
        (case fst (Promise_all2 env (rm_force env tmp) (rm_force env out) w5) of
           Inl e \<Rightarrow> Inl e | Inr _ \<Rightarrow> Inr (respondWithJSON 200 video'),
         snd (Promise_all2 env (rm_force env tmp) (rm_force env out) w5))"
    using acc st fin by (simp only:)
  note run' = run [unfolded video'_def respondWithJSON_def tmp_def out_def]
  note d5' = d5 [unfolded video'_def]
  note f5' = f5 [unfolded tmp_def]
  show ?thesis
    by (rule exI [of _ w5]) (use f5' d5' t5 run' in simp)
qed


lemma env0_fields:
  "path_join env0 a b = a @ ''/'' @ b"
  "rm_error env0 p = None"
  by (simp_all add: env0_def)

lemma run0:
  "fst (handlerUploadVideo env0 cfg0 req0 world0) =
     Inr \<lparr>status = 200, body = video0\<lparr>videoURL := Some url0\<rparr>\<rparr>"
  "db (snd (handlerUploadVideo env0 cfg0 req0 world0)) = [video0\<lparr>videoURL := Some url0\<rparr>]"
proof -
  from run_to_cleanup [of env0] obtain w5 where
    d: "db w5 = [video0\<lparr>videoURL := Some url0\<rparr>]"
    and r: "handlerUploadVideo env0 cfg0 req0 world0 =
                 (case fst (Promise_all2 env0 (rm_force env0 ''/tmp/v1.mp4'')
                              (rm_force env0 ''/tmp/v1.mp4.processed.mp4'') w5) of
                    Inl e \<Rightarrow> Inl e
                  | Inr _ \<Rightarrow> Inr \<lparr>status = 200, body = video0\<lparr>videoURL := Some url0\<rparr>\<rparr>,
                  snd (Promise_all2 env0 (rm_force env0 ''/tmp/v1.mp4'')
                              (rm_force env0 ''/tmp/v1.mp4.processed.mp4'') w5))"
    by auto
  have c: "fst (Promise_all2 env0 (rm_force env0 ''/tmp/v1.mp4'')
                  (rm_force env0 ''/tmp/v1.mp4.processed.mp4'') w5) = Inr ()"
    by (simp add: Promise_all2_alt rm_force_fst env0_fields)
  show "fst (handlerUploadVideo env0 cfg0 req0 world0) =
     Inr \<lparr>status = 200, body = video0\<lparr>videoURL := Some url0\<rparr>\<rparr>"
    unfolding r c by simp
  show "db (snd (handlerUploadVideo env0 cfg0 req0 world0)) = [video0\<lparr>videoURL := Some url0\<rparr>]"
    unfolding r by (simp add: d)
qed

lemma run_denied:
  "fst (handlerUploadVideo env_rm_denied cfg0 req0 world0) =
     Inl (Thrown ''SystemError'' ''EPERM: operation not permitted'')"
  "db (snd (handlerUploadVideo env_rm_denied cfg0 req0 world0)) = [video0\<lparr>videoURL := Some url0\<rparr>]"
  "Rm ''/tmp/v1.mp4'' \<in> set (trace (snd (handlerUploadVideo env_rm_denied cfg0 req0 world0)))"
proof -
  from run_to_cleanup [of env_rm_denied] obtain w5 where
    f: "files w5 ''/tmp/v1.mp4'' \<noteq> None"
    and d: "db w5 = [video0\<lparr>videoURL := Some url0\<rparr>]"
    and r: "handlerUploadVideo env_rm_denied cfg0 req0 world0 =
                 (case fst (Promise_all2 env_rm_denied (rm_force env_rm_denied ''/tmp/v1.mp4'')
                              (rm_force env_rm_denied ''/tmp/v1.mp4.processed.mp4'') w5) of
                    Inl e \<Rightarrow> Inl e
                  | Inr _ \<Rightarrow> Inr \<lparr>status = 200, body = video0\<lparr>videoURL := Some url0\<rparr>\<rparr>,
                  snd (Promise_all2 env_rm_denied (rm_force env_rm_denied ''/tmp/v1.mp4'')
                              (rm_force env_rm_denied ''/tmp/v1.mp4.processed.mp4'') w5))"
    by (auto simp: env_rm_denied_def)
  have e: "rm_error env_rm_denied ''/tmp/v1.mp4'' = Some (Thrown ''SystemError'' ''EPERM: operation not permitted'')"
    "rm_error env_rm_denied ''/tmp/v1.mp4.processed.mp4'' = None"
    by (simp_all add: env_rm_denied_def)
  have c: "fst (Promise_all2 env_rm_denied (rm_force env_rm_denied ''/tmp/v1.mp4'')
                  (rm_force env_rm_denied ''/tmp/v1.mp4.processed.mp4'') w5) =
             Inl (Thrown ''SystemError'' ''EPERM: operation not permitted'')"
    using f by (simp add: Promise_all2_alt rm_force_fst e)
  show "fst (handlerUploadVideo env_rm_denied cfg0 req0 world0) =
     Inl (Thrown ''SystemError'' ''EPERM: operation not permitted'')"
    unfolding r c by simp
  show "db (snd (handlerUploadVideo env_rm_denied cfg0 req0 world0)) = [video0\<lparr>videoURL := Some url0\<rparr>]"
    unfolding r by (simp add: d)
  show "Rm ''/tmp/v1.mp4'' \<in> set (trace (snd (handlerUploadVideo env_rm_denied cfg0 req0 world0)))"
    unfolding r by simp
qed

lemma run_probe_exit2:
  "handlerUploadVideo env_probe_exit2 cfg0 req0 world0 =
     (Inl (Error ''ffprobe error: bad file''),
      snd (getVideoAspectRatio env_probe_exit2 ''/tmp/v1.mp4''
            (snd (Bun_write env_probe_exit2 ''/tmp/v1.mp4'' file0 world0))))"
proof -
  have acc: "handlerUploadVideo env_probe_exit2 cfg0 req0 world0 =
               handlerUploadVideo_store env_probe_exit2 cfg0 ''v1'' video0 file0 world0"
    by (rule handler_accept [where token = "''alice-token''" and form = "[(''video'', FormFile file0)]"])
      (simp_all add: env_probe_exit2_def req0_def env0_def world0_def video0_def file0_def getVideo_def
        MAX_UPLOAD_SIZE_value)
  have tmp: "path_join env_probe_exit2 ''/tmp'' (''v1'' @ ''.mp4'') = ''/tmp/v1.mp4''"
    by (simp add: env_probe_exit2_def env0_def)
  have a: "fst (Bun_write env_probe_exit2 ''/tmp/v1.mp4'' file0 world0) = Inr ()"
    by (simp add: Bun_write_files env_probe_exit2_def env0_def)
  have b: "fst (getVideoAspectRatio env_probe_exit2 ''/tmp/v1.mp4'' w) = Inl (Error ''ffprobe error: bad file'')" for w
    by (simp add: getVideoAspectRatio_def io_bind_alt io_throw_def Bun_spawn_files env_probe_exit2_def)
  show ?thesis
    unfolding acc handlerUploadVideo_store_def Let_def tmp
    by (simp add: io_bind_alt a b)
qed

lemma cleanup_reached:
  assumes "handlerUploadVideo env cfg req w = (r, w')"
    and "trace w' = trace w @ evs" and "Rm p \<in> set evs"
  shows "\<exists>videoId video cls.
           params_videoId req = Some videoId \<and> getVideo (db w) videoId = Some video \<and>
           cls \<in> {''landscape'', ''portrait'', ''other''} \<and>
           db w' = updateVideo (db w)
             (video\<lparr>videoURL := Some (''https://'' @ s3Bucket cfg @ ''.s3.'' @ s3Region cfg @
                        ''.amazonaws.com/'' @ cls @ ''/'' @ videoId @ ''.mp4'')\<rparr>)"
proof -
  from handler_cases [OF assms(1)] assms(2,3) obtain videoId token video form f where
    v: "params_videoId req = Some videoId" "getVideo (db w) videoId = Some video"
    and st: "handlerUploadVideo_store env cfg videoId video f w = (r, w')"
    by auto
  define tmp where "tmp = path_join env ''/tmp'' (videoId @ ''.mp4'')"
  define out where "out = tmp @ ''.processed.mp4''"
  define w3 where "w3 = snd (processVideoForFastStart env tmp
                 (snd (getVideoAspectRatio env tmp (snd (Bun_write env tmp f w)))))"
  have w3: "db w3 = db w"
    "trace w3 = trace w @ [Write tmp, Spawn (ffprobe_argv tmp), Spawn (ffmpeg_argv tmp out)]"
    by (simp_all add: w3_def out_def)
  from store_cases [OF st] assms(2,3) obtain cls where
    b: "fst (getVideoAspectRatio env tmp (snd (Bun_write env tmp f w))) = Inr cls"
    and fin: "handlerUploadVideo_finish env cfg videoId video tmp cls out w3 = (r, w')"
    by (auto simp: Let_def tmp_def out_def w3_def)
  define key where "key = cls @ ''/'' @ videoId @ ''.mp4''"
  define url where "url = ''https://'' @ s3Bucket cfg @ ''.s3.'' @ s3Region cfg @ ''.amazonaws.com/'' @ key"
  define w4 where "w4 = snd (s3_upload env cfg key out ''video/mp4'' w3)"
  define c where "c = Promise_all2 env (rm_force env tmp) (rm_force env out)
                        (snd (db_update (video\<lparr>videoURL := Some url\<rparr>) w4))"
  note fc = finish_cases [OF fin, unfolded Let_def, folded key_def, folded url_def,
      folded w4_def, folded c_def]
  have t4: "trace w4 = trace w @ [Write tmp, Spawn (ffprobe_argv tmp), Spawn (ffmpeg_argv tmp out),
              S3Put key out ''video/mp4'']"
    by (simp add: w4_def w3)
  from fc assms(2,3) t4 have w': "w' = snd c" by auto
  have d: "db w' = updateVideo (db w) (video\<lparr>videoURL := Some url\<rparr>)"
    by (simp add: w' c_def w4_def w3)
  show ?thesis
    apply (rule exI [of _ videoId], rule exI [of _ video], rule exI [of _ cls])
    using v probe_class_range [OF b] d by (simp add: url_def key_def)
qed

section \<open>The claims\<close>

subsection \<open>C1: when the record is mutated\<close>

text \<open>
  Claim C1, as the code has it. If a request changes the stored records at all, then the
  credential was valid and named the owner of the record, the upload to object storage
  returned successfully (the object store of the final world is the one it returned),
  the update of the record follows the upload in the trace, and the only change is the
  new URL of that record. A request that fails leaves the stored records unchanged,
  unless its error was raised by the deletion of a temporary file: that step runs after
  the record has been updated. Whenever a deletion has been issued, and so for every
  request that fails in the deletion, the stored record holds the new URL.
\<close>

theorem record_mutation_guarded:
  assumes "handlerUploadVideo env cfg req w = (r, w')"
  shows "(db w' \<noteq> db w \<longrightarrow>
            (\<exists>videoId token video key out fs3 evs1 evs2 url.
               params_videoId req = Some videoId \<and>
               getBearerToken env (headers req) = Inr token \<and>
               validateJWT env token (jwtSecret cfg) = Inr (userID video) \<and>
               getVideo (db w) videoId = Some video \<and>
               uploadVideoToS3 env cfg key out ''video/mp4'' fs3 (s3 w) = Inr (s3 w') \<and>
               trace w' = trace w @ evs1 @ S3Put key out ''video/mp4'' #
                            DbUpdate (video\<lparr>videoURL := Some url\<rparr>) # evs2 \<and>
               (\<forall>v. DbUpdate v \<notin> set evs1) \<and>
               db w' = updateVideo (db w) (video\<lparr>videoURL := Some url\<rparr>)))
       \<and> (\<forall>e. r = Inl e \<longrightarrow> db w' = db w \<or>
            (\<exists>p evs. trace w' = trace w @ evs \<and> Rm p \<in> set evs \<and> rm_error env p = Some e))
       \<and> (\<forall>p evs. trace w' = trace w @ evs \<and> Rm p \<in> set evs \<longrightarrow>
            (\<exists>videoId video cls url.
               params_videoId req = Some videoId \<and> getVideo (db w) videoId = Some video \<and>
               cls \<in> {''landscape'', ''portrait'', ''other''} \<and>
               url = ''https://'' @ s3Bucket cfg @ ''.s3.'' @ s3Region cfg @ ''.amazonaws.com/'' @
                     cls @ ''/'' @ videoId @ ''.mp4'' \<and>
               db w' = updateVideo (db w) (video\<lparr>videoURL := Some url\<rparr>) \<and>
               getVideo (db w') videoId = Some (video\<lparr>videoURL := Some url\<rparr>)))"
  (is "?A \<and> ?B \<and> ?C")
proof -
  have ab: "?A \<and> ?B"
  proof (cases "db w' = db w")
  case True
  then show ?thesis by simp
next
  case False
  from handler_cases [OF assms] False obtain videoId token video form f where
    v: "params_videoId req = Some videoId" "getBearerToken env (headers req) = Inr token"
       "validateJWT env token (jwtSecret cfg) = Inr (userID video)"
       "getVideo (db w) videoId = Some video"
    and st: "handlerUploadVideo_store env cfg videoId video f w = (r, w')"
    by auto
  define tmp where "tmp = path_join env ''/tmp'' (videoId @ ''.mp4'')"
  define out where "out = tmp @ ''.processed.mp4''"
  define w3 where "w3 = snd (processVideoForFastStart env tmp
                 (snd (getVideoAspectRatio env tmp (snd (Bun_write env tmp f w)))))"
  from store_cases [OF st] False obtain cls where
    fin: "handlerUploadVideo_finish env cfg videoId video tmp cls out w3 = (r, w')"
    by (auto simp: Let_def tmp_def out_def w3_def)
  define key where "key = cls @ ''/'' @ videoId @ ''.mp4''"
  define url where "url = ''https://'' @ s3Bucket cfg @ ''.s3.'' @ s3Region cfg @ ''.amazonaws.com/'' @ key"
  define w4 where "w4 = snd (s3_upload env cfg key out ''video/mp4'' w3)"
  define c where "c = Promise_all2 env (rm_force env tmp) (rm_force env out)
                        (snd (db_update (video\<lparr>videoURL := Some url\<rparr>) w4))"
  have w3: "db w3 = db w" "s3 w3 = s3 w"
    "trace w3 = trace w @ [Write tmp, Spawn (ffprobe_argv tmp), Spawn (ffmpeg_argv tmp out)]"
    by (simp_all add: w3_def out_def)
  note fc = finish_cases [OF fin, unfolded Let_def, folded key_def, folded url_def,
      folded w4_def, folded c_def]
  have "db w4 = db w" by (simp add: w4_def w3)
  with fc False
  have u: "fst (s3_upload env cfg key out ''video/mp4'' w3) = Inr ()"
    and w': "w' = snd c"
    and r: "r = (case fst c of Inl e \<Rightarrow> Inl e
                 | Inr _ \<Rightarrow> Inr (respondWithJSON 200 (video\<lparr>videoURL := Some url\<rparr>)))"
    by auto
  have up: "uploadVideoToS3 env cfg key out ''video/mp4'' (files w3) (s3 w) = Inr (s3 w')"
    using s3_upload_result(1) [OF u] w3(2) by (simp add: w' c_def w4_def)
  have tr: "trace w' = trace w @ [Write tmp, Spawn (ffprobe_argv tmp), Spawn (ffmpeg_argv tmp out)] @
              S3Put key out ''video/mp4'' # DbUpdate (video\<lparr>videoURL := Some url\<rparr>) # [Rm tmp, Rm out]"
    by (simp add: w' c_def w4_def w3)
  have d: "db w' = updateVideo (db w) (video\<lparr>videoURL := Some url\<rparr>)"
    by (simp add: w' c_def w4_def w3)
  have first: "\<exists>videoId token video key out fs3 evs1 evs2 url.
               params_videoId req = Some videoId \<and>
               getBearerToken env (headers req) = Inr token \<and>
               validateJWT env token (jwtSecret cfg) = Inr (userID video) \<and>
               getVideo (db w) videoId = Some video \<and>
               uploadVideoToS3 env cfg key out ''video/mp4'' fs3 (s3 w) = Inr (s3 w') \<and>
               trace w' = trace w @ evs1 @ S3Put key out ''video/mp4'' #
                            DbUpdate (video\<lparr>videoURL := Some url\<rparr>) # evs2 \<and>
               (\<forall>v. DbUpdate v \<notin> set evs1) \<and>
               db w' = updateVideo (db w) (video\<lparr>videoURL := Some url\<rparr>)"
    apply (rule exI [of _ videoId], rule exI [of _ token], rule exI [of _ video],
        rule exI [of _ key], rule exI [of _ out], rule exI [of _ "files w3"],
        rule exI [of _ "[Write tmp, Spawn (ffprobe_argv tmp), Spawn (ffmpeg_argv tmp out)]"],
        rule exI [of _ "[Rm tmp, Rm out]"], rule exI [of _ url])
    using v up tr d by simp
  have second: "\<exists>p evs. trace w' = trace w @ evs \<and> Rm p \<in> set evs \<and> rm_error env p = Some e"
    if "r = Inl e" for e
  proof -
    from that r have "fst c = Inl e" by (simp split: sum.splits)
    then have "rm_error env tmp = Some e \<or> rm_error env out = Some e"
      unfolding c_def by (rule cleanup_error)
    then show ?thesis using tr by auto
  qed
  from first second show ?thesis by blast
qed
  have c: ?C
  proof (intro allI impI, elim conjE)
    fix p evs
    assume "trace w' = trace w @ evs" and "Rm p \<in> set evs"
    from cleanup_reached [OF assms this] obtain videoId video cls where
      v: "params_videoId req = Some videoId" "getVideo (db w) videoId = Some video"
        "cls \<in> {''landscape'', ''portrait'', ''other''}"
      and d: "db w' = updateVideo (db w)
             (video\<lparr>videoURL := Some (''https://'' @ s3Bucket cfg @ ''.s3.'' @ s3Region cfg @
                        ''.amazonaws.com/'' @ cls @ ''/'' @ videoId @ ''.mp4'')\<rparr>)"
      by blast
    have "getVideo (db w') videoId =
            Some (video\<lparr>videoURL := Some (''https://'' @ s3Bucket cfg @ ''.s3.'' @ s3Region cfg @
                        ''.amazonaws.com/'' @ cls @ ''/'' @ videoId @ ''.mp4'')\<rparr>)"
      unfolding d using v(2) by (rule getVideo_updateVideo)
    with v d show "\<exists>videoId video cls url.
               params_videoId req = Some videoId \<and> getVideo (db w) videoId = Some video \<and>
               cls \<in> {''landscape'', ''portrait'', ''other''} \<and>
               url = ''https://'' @ s3Bucket cfg @ ''.s3.'' @ s3Region cfg @ ''.amazonaws.com/'' @
                     cls @ ''/'' @ videoId @ ''.mp4'' \<and>
               db w' = updateVideo (db w) (video\<lparr>videoURL := Some url\<rparr>) \<and>
               getVideo (db w') videoId = Some (video\<lparr>videoURL := Some url\<rparr>)"
      by blast
  qed
  from ab c show ?thesis by blast
qed

text \<open>
  The successful upload of \<open>req0\<close> changes the record and its caller is the owner; the
  same upload with a probe that exits with 2 fails and changes no record; the same upload
  with a deletion that is refused fails, and the record holds the new URL.
\<close>

theorem record_mutation_guarded_witness:
  "db (snd (handlerUploadVideo env0 cfg0 req0 world0)) \<noteq> db world0
   \<and> (\<exists>token video. getBearerToken env0 (headers req0) = Inr token \<and>
         validateJWT env0 token (jwtSecret cfg0) = Inr (userID video) \<and>
         getVideo (db world0) ''v1'' = Some video)
   \<and> fst (handlerUploadVideo env_probe_exit2 cfg0 req0 world0) = Inl (Error ''ffprobe error: bad file'')
   \<and> db (snd (handlerUploadVideo env_probe_exit2 cfg0 req0 world0)) = db world0
   \<and> fst (handlerUploadVideo env_rm_denied cfg0 req0 world0) =
       Inl (Thrown ''SystemError'' ''EPERM: operation not permitted'')
   \<and> Rm ''/tmp/v1.mp4'' \<in> set (trace (snd (handlerUploadVideo env_rm_denied cfg0 req0 world0)))
   \<and> (\<exists>cls. cls \<in> {''landscape'', ''portrait'', ''other''} \<and>
         getVideo (db (snd (handlerUploadVideo env_rm_denied cfg0 req0 world0))) ''v1'' =
           Some (video0\<lparr>videoURL := Some (''https://tubely.s3.us-east-2.amazonaws.com/'' @ cls @ ''/v1.mp4'')\<rparr>))"
proof -
  have ne: "db (snd (handlerUploadVideo env0 cfg0 req0 world0)) \<noteq> db world0"
    unfolding run0(2) by (simp add: world0_def video0_def)
  from record_mutation_guarded [of env0 cfg0 req0 world0
      "fst (handlerUploadVideo env0 cfg0 req0 world0)" "snd (handlerUploadVideo env0 cfg0 req0 world0)"] ne
  obtain videoId token video where
    "params_videoId req0 = Some videoId" "getBearerToken env0 (headers req0) = Inr token"
    "validateJWT env0 token (jwtSecret cfg0) = Inr (userID video)"
    "getVideo (db world0) videoId = Some video"
    by auto
  then have a: "\<exists>token video. getBearerToken env0 (headers req0) = Inr token \<and>
         validateJWT env0 token (jwtSecret cfg0) = Inr (userID video) \<and>
         getVideo (db world0) ''v1'' = Some video"
    by (auto simp: req0_def)
  have f: "fst (handlerUploadVideo env_probe_exit2 cfg0 req0 world0) = Inl (Error ''ffprobe error: bad file'')"
    by (simp add: run_probe_exit2)
  have "rm_error env_probe_exit2 p \<noteq> Some (Error ''ffprobe error: bad file'')" for p
    by (simp add: env_probe_exit2_def env0_def)
  moreover have "handlerUploadVideo env_probe_exit2 cfg0 req0 world0 =
      (Inl (Error ''ffprobe error: bad file''), snd (handlerUploadVideo env_probe_exit2 cfg0 req0 world0))"
    using f by (simp add: prod_eq_iff)
  note record_mutation_guarded [OF this]
  ultimately have b: "db (snd (handlerUploadVideo env_probe_exit2 cfg0 req0 world0)) = db world0"
    by blast
  have tr: "trace (snd (handlerUploadVideo env_rm_denied cfg0 req0 world0)) =
      trace world0 @ trace (snd (handlerUploadVideo env_rm_denied cfg0 req0 world0))"
    by (simp add: world0_def)
  from record_mutation_guarded [of env_rm_denied cfg0 req0 world0
      "fst (handlerUploadVideo env_rm_denied cfg0 req0 world0)"
      "snd (handlerUploadVideo env_rm_denied cfg0 req0 world0)"] tr run_denied(3)
  obtain videoId video cls where
    k: "params_videoId req0 = Some videoId" "getVideo (db world0) videoId = Some video"
      "cls \<in> {''landscape'', ''portrait'', ''other''}"
    and g: "getVideo (db (snd (handlerUploadVideo env_rm_denied cfg0 req0 world0))) videoId =
        Some (video\<lparr>videoURL := Some (''https://'' @ s3Bucket cfg0 @ ''.s3.'' @ s3Region cfg0 @
               ''.amazonaws.com/'' @ cls @ ''/'' @ videoId @ ''.mp4'')\<rparr>)"
    by (simp only: prod.collapse) blast
  from k(1) have vid: "videoId = ''v1''" by (simp add: req0_def)
  from k(2) vid have vd: "video = video0" by (simp add: world0_def getVideo_def video0_def)
  from g k(3) have c: "\<exists>cls. cls \<in> {''landscape'', ''portrait'', ''other''} \<and>
         getVideo (db (snd (handlerUploadVideo env_rm_denied cfg0 req0 world0))) ''v1'' =
           Some (video0\<lparr>videoURL := Some (''https://tubely.s3.us-east-2.amazonaws.com/'' @ cls @ ''/v1.mp4'')\<rparr>)"
    unfolding vid vd by (intro exI [of _ cls]) (simp add: cfg0_def)
  from ne a f b run_denied(1,3) c show ?thesis by blast
qed

text \<open>
  The claim as stated fails when a deletion fails: the request ends with the error of
  \<^verbatim>\<open>rm\<close>, and the record, whose URL was null, holds the new URL.
\<close>

theorem failed_request_keeps_new_url_counterexample:
  "fst (handlerUploadVideo env_rm_denied cfg0 req0 world0) =
     Inl (Thrown ''SystemError'' ''EPERM: operation not permitted'')
   \<and> map videoURL (db world0) = [None]
   \<and> map videoURL (db (snd (handlerUploadVideo env_rm_denied cfg0 req0 world0))) = [Some url0]"
  unfolding run_denied by (simp add: world0_def video0_def)

subsection \<open>C2: the aspect classification\<close>

text \<open>
  Claim C2. When the probing subprocess exits with 0 and the first element of the parsed
  \<^verbatim>\<open>streams\<close> array is an object with the numbers \<open>width\<close> and \<open>height\<close>, the probe
  returns \<open>aspectRatioClass width height\<close>: the class depends on these two numbers and on
  nothing else. It is \<^verbatim>\<open>landscape\<close> exactly when the quotient computed by \<^verbatim>\<open>/\<close> lies
  strictly between the literals \<^verbatim>\<open>1.7\<close> and \<^verbatim>\<open>1.8\<close>, \<^verbatim>\<open>portrait\<close> exactly when it lies
  strictly between \<^verbatim>\<open>0.5\<close> and \<^verbatim>\<open>0.6\<close>, and \<^verbatim>\<open>other\<close> in every other case. For integer
  dimensions of either sign with a height other than 0 and of magnitude below \<open>2^31\<close>,
  the binary64 comparisons agree with the exact ones on the ratio \<open>width / height\<close>; a
  height of 0 gives \<^verbatim>\<open>other\<close>. 1920 by 1080 is \<^verbatim>\<open>landscape\<close>, 1080 by 1920 is
  \<^verbatim>\<open>portrait\<close>, 1000 by 1000 is \<^verbatim>\<open>other\<close>, and the ratios 17/10 and 18/10 themselves are
  \<^verbatim>\<open>other\<close>.
\<close>

theorem aspect_classification:
  "(aspectRatioClass width height = ''landscape'' \<longleftrightarrow>
      js_greater (js_div width height) (js_literal (17 / 10)) \<and>
      js_less (js_div width height) (js_literal (18 / 10)))
   \<and> (aspectRatioClass width height = ''portrait'' \<longleftrightarrow>
      js_greater (js_div width height) (js_literal (5 / 10)) \<and>
      js_less (js_div width height) (js_literal (6 / 10)))
   \<and> (aspectRatioClass width height = ''other'' \<longleftrightarrow>
      \<not> (js_greater (js_div width height) (js_literal (17 / 10)) \<and>
         js_less (js_div width height) (js_literal (18 / 10))) \<and>
      \<not> (js_greater (js_div width height) (js_literal (5 / 10)) \<and>
         js_less (js_div width height) (js_literal (6 / 10))))
   \<and> (spawn env (ffprobe_argv p) (files st) = Inr (pr, fs') \<and> exitCode pr = 0 \<and>
      JSON_parse env (outputText pr) = Inr (JObj props) \<and>
      map_of props ''streams'' = Some (JArr (JObj sprops # rest)) \<and>
      map_of sprops ''width'' = Some (JNum width) \<and>
      map_of sprops ''height'' = Some (JNum height) \<longrightarrow>
        fst (getVideoAspectRatio env p st) = Inr (aspectRatioClass width height))
   \<and> (h \<noteq> 0 \<and> \<bar>h\<bar> < 2 ^ 31 \<longrightarrow>
        aspectRatioClass (js_int w) (js_int h) =
          (if 17 / 10 < (of_int w / of_int h :: rat) \<and> (of_int w / of_int h :: rat) < 18 / 10
           then ''landscape''
           else if 5 / 10 < (of_int w / of_int h :: rat) \<and> (of_int w / of_int h :: rat) < 6 / 10
           then ''portrait''
           else ''other''))
   \<and> aspectRatioClass (js_int w) (js_int 0) = ''other''
   \<and> aspectRatioClass (js_int 1920) (js_int 1080) = ''landscape''
   \<and> aspectRatioClass (js_int 1080) (js_int 1920) = ''portrait''
   \<and> aspectRatioClass (js_int 1000) (js_int 1000) = ''other''
   \<and> aspectRatioClass (js_int 17) (js_int 10) = ''other''
   \<and> aspectRatioClass (js_int 18) (js_int 10) = ''other''"
proof (intro conjI impI)
  show "aspectRatioClass width height = ''landscape'' \<longleftrightarrow>
      js_greater (js_div width height) (js_literal (17 / 10)) \<and>
      js_less (js_div width height) (js_literal (18 / 10))"
    by (simp add: aspectRatioClass_def Let_def)
  show "aspectRatioClass width height = ''portrait'' \<longleftrightarrow>
      js_greater (js_div width height) (js_literal (5 / 10)) \<and>
      js_less (js_div width height) (js_literal (6 / 10))"
    using bands_disjoint [of "js_div width height"]
    by (auto simp: aspectRatioClass_def Let_def js_greater_def)
  show "aspectRatioClass width height = ''other'' \<longleftrightarrow>
      \<not> (js_greater (js_div width height) (js_literal (17 / 10)) \<and>
         js_less (js_div width height) (js_literal (18 / 10))) \<and>
      \<not> (js_greater (js_div width height) (js_literal (5 / 10)) \<and>
         js_less (js_div width height) (js_literal (6 / 10)))"
    by (simp add: aspectRatioClass_def Let_def)
  show "fst (getVideoAspectRatio env p st) = Inr (aspectRatioClass width height)"
    if "spawn env (ffprobe_argv p) (files st) = Inr (pr, fs') \<and> exitCode pr = 0 \<and>
      JSON_parse env (outputText pr) = Inr (JObj props) \<and>
      map_of props ''streams'' = Some (JArr (JObj sprops # rest)) \<and>
      map_of sprops ''width'' = Some (JNum width) \<and>
      map_of sprops ''height'' = Some (JNum height)"
    using that by (intro probe_class [where pr = pr and fs' = fs' and props = props
          and sprops = sprops and rest = rest]) simp_all
  show "aspectRatioClass (js_int w) (js_int h) =
          (if 17 / 10 < (of_int w / of_int h :: rat) \<and> (of_int w / of_int h :: rat) < 18 / 10
           then ''landscape''
           else if 5 / 10 < (of_int w / of_int h :: rat) \<and> (of_int w / of_int h :: rat) < 6 / 10
           then ''portrait''
           else ''other'')"
    if "h \<noteq> 0 \<and> \<bar>h\<bar> < 2 ^ 31"
    using that by (intro class_of_ratio_signed) simp_all
  show "aspectRatioClass (js_int w) (js_int 0) = ''other''"
    by (rule class_zero_height)
  show "aspectRatioClass (js_int 1920) (js_int 1080) = ''landscape''"
    using class_of_ratio [of 1920 1080] by simp
  show "aspectRatioClass (js_int 1080) (js_int 1920) = ''portrait''"
    using class_of_ratio [of 1080 1920] by simp
  show "aspectRatioClass (js_int 1000) (js_int 1000) = ''other''"
    using class_of_ratio [of 1000 1000] by simp
  show "aspectRatioClass (js_int 17) (js_int 10) = ''other''"
    using class_of_ratio [of 17 10] by simp
  show "aspectRatioClass (js_int 18) (js_int 10) = ''other''"
    using class_of_ratio [of 18 10] by simp
qed

text \<open>
  1280 by 720, a negative width, and the probe of \<open>env0\<close>, whose output holds 1920 by
  1080.
\<close>

theorem aspect_classification_witness:
  "(720::int) \<noteq> 0 \<and> \<bar>720::int\<bar> < 2 ^ 31 \<and>
   aspectRatioClass (js_int 1280) (js_int 720) = ''landscape'' \<and>
   aspectRatioClass (js_int (- 1280)) (js_int 720) = ''other'' \<and>
   spawn env0 (ffprobe_argv ''/tmp/v1.mp4'') (files world0) =
     Inr (\<lparr>exitCode = 0, outputText = probe_out, errorText = []\<rparr>, files world0) \<and>
   JSON_parse env0 probe_out =
     Inr (JObj [(''streams'', JArr [JObj [(''width'', JNum (js_int 1920)),
                                         (''height'', JNum (js_int 1080))]])]) \<and>
   fst (getVideoAspectRatio env0 ''/tmp/v1.mp4'' world0) = Inr ''landscape''"
proof -
  have a: "aspectRatioClass (js_int 1280) (js_int 720) = ''landscape''"
    using aspect_classification [where w = 1280 and h = 720] by simp
  have b: "aspectRatioClass (js_int (- 1280)) (js_int 720) = ''other''"
    using aspect_classification [where w = "- 1280" and h = 720] by simp
  have s: "spawn env0 (ffprobe_argv ''/tmp/v1.mp4'') (files world0) =
     Inr (\<lparr>exitCode = 0, outputText = probe_out, errorText = []\<rparr>, files world0)"
    by (simp add: env0_def ffprobe_argv_def)
  have j: "JSON_parse env0 probe_out =
     Inr (JObj [(''streams'', JArr [JObj [(''width'', JNum (js_int 1920)),
                                         (''height'', JNum (js_int 1080))]])])"
    by (simp add: env0_def js_int_def)
  have "fst (getVideoAspectRatio env0 ''/tmp/v1.mp4'' world0) =
          Inr (aspectRatioClass (js_int 1920) (js_int 1080))"
    using aspect_classification [where env = env0 and p = "''/tmp/v1.mp4''" and st = world0
        and pr = "\<lparr>exitCode = 0, outputText = probe_out, errorText = []\<rparr>" and fs' = "files world0"
        and props = "[(''streams'', JArr [JObj [(''width'', JNum (js_int 1920)),
                                         (''height'', JNum (js_int 1080))]])]"
        and sprops = "[(''width'', JNum (js_int 1920)), (''height'', JNum (js_int 1080))]"
        and rest = "[]" and width = "js_int 1920" and height = "js_int 1080"] s j
    by simp
  moreover have "aspectRatioClass (js_int 1920) (js_int 1080) = ''landscape''"
    using aspect_classification [where w = 0] by simp
  ultimately have c: "fst (getVideoAspectRatio env0 ''/tmp/v1.mp4'' world0) = Inr ''landscape''"
    by simp
  from a b s j c show ?thesis by simp
qed

subsection \<open>C3: the deletion of the temporary files\<close>

text \<open>
  Claim C3, as the code has it. A request either fails before the record is updated, and
  then issues no deletion, or reaches the cleanup, and then issues both deletions, of the
  original and of the processed file, in every case. After the cleanup the request
  succeeds exactly when neither file exists any more: a path that was already missing is
  no error, and a deletion that fails makes the request fail with that error.
\<close>

theorem cleanup_deletions:
  assumes "handlerUploadVideo env cfg req w = (r, w')"
  shows "\<exists>evs. trace w' = trace w @ evs \<and>
           ((\<exists>e. r = Inl e) \<and> (\<forall>p. Rm p \<notin> set evs) \<and> (\<forall>v. DbUpdate v \<notin> set evs)
          \<or> (\<exists>videoId v pre. params_videoId req = Some videoId \<and>
               (let tmp = path_join env ''/tmp'' (videoId @ ''.mp4'');
                    out = tmp @ ''.processed.mp4''
                in evs = pre @ [DbUpdate v, Rm tmp, Rm out] \<and>
                   ((\<exists>resp. r = Inr resp) \<longleftrightarrow> files w' tmp = None \<and> files w' out = None) \<and>
                   (\<forall>e. r = Inl e \<longrightarrow> rm_error env tmp = Some e \<or> rm_error env out = Some e))))"
proof -
  from handler_cases [OF assms] show ?thesis
  proof (elim disjE exE conjE)
    fix e assume "r = Inl e" "w' = w"
    then show ?thesis by (intro exI [of _ "[]"]) simp
  next
    fix videoId token video form f
    assume v: "params_videoId req = Some videoId"
      and st: "handlerUploadVideo_store env cfg videoId video f w = (r, w')"
    define tmp where "tmp = path_join env ''/tmp'' (videoId @ ''.mp4'')"
    define out where "out = tmp @ ''.processed.mp4''"
    define w3 where "w3 = snd (processVideoForFastStart env tmp
                   (snd (getVideoAspectRatio env tmp (snd (Bun_write env tmp f w)))))"
    have w3: "trace w3 = trace w @ [Write tmp, Spawn (ffprobe_argv tmp), Spawn (ffmpeg_argv tmp out)]"
      by (simp add: w3_def out_def)
    from store_cases [OF st]
    consider (early) e evs where "r = Inl e" "trace w' = trace w @ evs"
        "\<forall>p. Rm p \<notin> set evs" "\<forall>v. DbUpdate v \<notin> set evs"
      | (fin) cls where "handlerUploadVideo_finish env cfg videoId video tmp cls out w3 = (r, w')"
      by (auto simp: Let_def tmp_def out_def w3_def)
    then show ?thesis
    proof cases
      case early
      then show ?thesis by blast
    next
      case fin
      define key where "key = cls @ ''/'' @ videoId @ ''.mp4''"
      define video' where "video' = video\<lparr>videoURL := Some (''https://'' @ s3Bucket cfg @ ''.s3.'' @ s3Region cfg @ ''.amazonaws.com/'' @ key)\<rparr>"
      define w4 where "w4 = snd (s3_upload env cfg key out ''video/mp4'' w3)"
      define c where "c = Promise_all2 env (rm_force env tmp) (rm_force env out) (snd (db_update video' w4))"
      from finish_cases [OF fin, unfolded Let_def, folded key_def, folded video'_def,
          folded w4_def, folded c_def]
      consider (upfail) e where "r = Inl e" "w' = w4"
        | (clean) "w' = snd c"
          "r = (case fst c of Inl e \<Rightarrow> Inl e | Inr _ \<Rightarrow> Inr (respondWithJSON 200 video'))"
        by auto
      then show ?thesis
      proof cases
        case upfail
        then have "trace w' = trace w @ [Write tmp, Spawn (ffprobe_argv tmp), Spawn (ffmpeg_argv tmp out),
                     S3Put key out ''video/mp4'']"
          by (simp add: w4_def w3)
        with upfail(1) show ?thesis by (intro exI [of _ "[Write tmp, Spawn (ffprobe_argv tmp), Spawn (ffmpeg_argv tmp out),
                     S3Put key out ''video/mp4'']"]) simp
      next
        case clean
        have tr: "trace w' = trace w @ [Write tmp, Spawn (ffprobe_argv tmp), Spawn (ffmpeg_argv tmp out),
                     S3Put key out ''video/mp4''] @ [DbUpdate video', Rm tmp, Rm out]"
          by (simp add: clean(1) c_def w4_def w3)
        have ok: "(\<exists>resp. r = Inr resp) \<longleftrightarrow> files w' tmp = None \<and> files w' out = None"
          using cleanup_result [of env tmp out "snd (db_update video' w4)"]
          by (auto simp: clean c_def split: sum.splits)
        have err: "rm_error env tmp = Some e \<or> rm_error env out = Some e" if "r = Inl e" for e
        proof -
          from that clean(2) have "fst c = Inl e" by (simp split: sum.splits)
          then show ?thesis unfolding c_def by (rule cleanup_error)
        qed
        show ?thesis
          apply (rule exI [of _ "[Write tmp, Spawn (ffprobe_argv tmp), Spawn (ffmpeg_argv tmp out),
                     S3Put key out ''video/mp4''] @ [DbUpdate video', Rm tmp, Rm out]"])
          apply (rule conjI [OF tr])
          apply (rule disjI2)
          apply (rule exI [of _ videoId], rule exI [of _ video'],
              rule exI [of _ "[Write tmp, Spawn (ffprobe_argv tmp), Spawn (ffmpeg_argv tmp out),
                     S3Put key out ''video/mp4'']"])
          using v ok err by (simp add: Let_def tmp_def [symmetric] out_def [symmetric])
      qed
    qed
  qed
qed

text \<open>
  The successful upload of \<open>req0\<close>: both temporary files are gone.
\<close>

theorem cleanup_deletions_witness:
  "fst (handlerUploadVideo env0 cfg0 req0 world0) =
     Inr \<lparr>status = 200, body = video0\<lparr>videoURL := Some url0\<rparr>\<rparr>
   \<and> files (snd (handlerUploadVideo env0 cfg0 req0 world0)) ''/tmp/v1.mp4'' = None
   \<and> files (snd (handlerUploadVideo env0 cfg0 req0 world0)) ''/tmp/v1.mp4.processed.mp4'' = None"
  using cleanup_deletions [of env0 cfg0 req0 world0
      "fst (handlerUploadVideo env0 cfg0 req0 world0)" "snd (handlerUploadVideo env0 cfg0 req0 world0)"]
    run0(1)
  by (auto simp: Let_def req0_def env0_fields)

text \<open>
  The claim as stated fails when a deletion fails: the error of \<^verbatim>\<open>rm\<close> on the original
  temporary file is the error of the request.
\<close>

theorem deletion_failure_surfaced_counterexample:
  "rm_error env_rm_denied ''/tmp/v1.mp4'' = Some (Thrown ''SystemError'' ''EPERM: operation not permitted'')
   \<and> fst (handlerUploadVideo env_rm_denied cfg0 req0 world0) =
       Inl (Thrown ''SystemError'' ''EPERM: operation not permitted'')"
  unfolding run_denied by (simp add: env_rm_denied_def)

subsection \<open>C4: the size limit\<close>

text \<open>
  Claim C4. For a request that reaches the size check (a non-empty identifier, a valid
  credential, a record owned by the caller, a file in the field \<^verbatim>\<open>video\<close>): a size above
  \<open>2^30\<close> bytes is rejected with BadRequest and the world is left as it was, so nothing
  has been written; a size of at most \<open>2^30\<close> passes the check: a file of another type is
  rejected by the type check that follows, and an mp4 file is written to the temporary
  path.
\<close>

theorem upload_size_limit:
  assumes "params_videoId req = Some videoId" and "videoId \<noteq> []"
    and "getBearerToken env (headers req) = Inr token"
    and "validateJWT env token (jwtSecret cfg) = Inr (userID video)"
    and "getVideo (db w) videoId = Some video"
    and "formData req = Inr form" and "map_of form ''video'' = Some (FormFile f)"
  shows "(2 ^ 30 < fsize f \<longrightarrow>
            handlerUploadVideo env cfg req w =
              (Inl (BadRequestError ''Video file exceeds the maximum allowed size of 1GB''), w))
       \<and> (fsize f \<le> 2 ^ 30 \<longrightarrow> ftype f \<noteq> ''video/mp4'' \<longrightarrow>
            handlerUploadVideo env cfg req w =
              (Inl (BadRequestError ''Invalid file type. Only MP4 allowed.''), w))
       \<and> (fsize f \<le> 2 ^ 30 \<longrightarrow> ftype f = ''video/mp4'' \<longrightarrow>
            (\<exists>evs. trace (snd (handlerUploadVideo env cfg req w)) =
                     trace w @ Write (path_join env ''/tmp'' (videoId @ ''.mp4'')) # evs))"
proof -
  have lim: "(MAX_UPLOAD_SIZE < int (fsize f)) = (2 ^ 30 < fsize f)"
    unfolding MAX_UPLOAD_SIZE_value by (metis of_nat_less_iff of_nat_numeral of_nat_power)
  have "\<exists>evs. trace (snd (handlerUploadVideo_store env cfg videoId video f w)) =
                trace w @ Write (path_join env ''/tmp'' (videoId @ ''.mp4'')) # evs"
    by (simp add: handlerUploadVideo_store_def handlerUploadVideo_finish_def io_defs Let_def
        split: sum.splits)
  then show ?thesis
    using assms lim by (simp add: handlerUploadVideo_def io_defs)
qed

text \<open>
  The limit itself and its successor: 2^30 + 1 bytes are rejected with the world
  unchanged, 2^30 bytes are written to the temporary path.
\<close>

theorem upload_size_limit_witness:
  "handlerUploadVideo env0 cfg0 (req_sized (2 ^ 30 + 1)) world0 =
     (Inl (BadRequestError ''Video file exceeds the maximum allowed size of 1GB''), world0)
   \<and> (\<exists>evs. trace (snd (handlerUploadVideo env0 cfg0 (req_sized (2 ^ 30)) world0)) =
              trace world0 @ Write (path_join env0 ''/tmp'' (''v1'' @ ''.mp4'')) # evs)"
  using upload_size_limit [of "req_sized (2 ^ 30 + 1)" "''v1''" env0 "''alice-token''" cfg0 video0 world0
      "[(''video'', FormFile (file0\<lparr>fsize := 2 ^ 30 + 1\<rparr>))]" "file0\<lparr>fsize := 2 ^ 30 + 1\<rparr>"]
    upload_size_limit [of "req_sized (2 ^ 30)" "''v1''" env0 "''alice-token''" cfg0 video0 world0
      "[(''video'', FormFile (file0\<lparr>fsize := 2 ^ 30\<rparr>))]" "file0\<lparr>fsize := 2 ^ 30\<rparr>"]
  by (simp add: scen_defs getVideo_def)

subsection \<open>C5: a caller who is not the owner\<close>

text \<open>
  Claim C5. When the authenticated identity differs from the owner of the record, the
  handler throws the Forbidden error and returns the world it was given: no temporary
  file, no subprocess, no object and no change of the record.
\<close>

theorem forbidden_without_effect:
  assumes "params_videoId req = Some videoId" and "videoId \<noteq> []"
    and "getBearerToken env (headers req) = Inr token"
    and "validateJWT env token (jwtSecret cfg) = Inr user"
    and "getVideo (db w) videoId = Some video"
    and "userID video \<noteq> user"
  shows "handlerUploadVideo env cfg req w =
           (Inl (UserForbiddenError (''User: '' @ user @ '' is not authorized to update this video'')), w)"
  using assms by (simp add: handlerUploadVideo_def io_defs)

text \<open>
  \<open>bob\<close> uploads to the video of \<open>alice\<close>.
\<close>

theorem forbidden_without_effect_witness:
  "userID video0 \<noteq> ''bob'' \<and>
   handlerUploadVideo env0 cfg0 req_bob world0 =
     (Inl (UserForbiddenError ''User: bob is not authorized to update this video''), world0)"
  using forbidden_without_effect [of req_bob "''v1''" env0 "''bob-token''" cfg0 "''bob''" world0 video0]
  by (simp add: scen_defs getVideo_def)

subsection \<open>C6: failures of the probe\<close>

text \<open>
  Claim C6, as the code has it. When the probing subprocess exits with a code other than
  0 the probe throws an \<open>Error\<close> whose message is \<^verbatim>\<open>ffprobe error: \<close> followed by the
  captured standard error; when it exits with 0 and its output parses to an object whose
  \<^verbatim>\<open>streams\<close> is the empty array, the probe throws an \<open>Error\<close> with the message
  \<^verbatim>\<open>No video streams found\<close>.
\<close>

theorem probe_failures:
  "(spawn env (ffprobe_argv p) (files w) = Inr (pr, fs') \<and> exitCode pr \<noteq> 0 \<longrightarrow>
      fst (getVideoAspectRatio env p w) = Inl (Error (''ffprobe error: '' @ errorText pr)))
   \<and> (spawn env (ffprobe_argv p) (files w) = Inr (pr, fs') \<and> exitCode pr = 0 \<and>
      JSON_parse env (outputText pr) = Inr (JObj props) \<and>
      map_of props ''streams'' = Some (JArr []) \<longrightarrow>
      fst (getVideoAspectRatio env p w) = Inl (Error ''No video streams found''))"
  by (simp add: getVideoAspectRatio_def io_defs Bun_spawn_def emit_def Let_def)

text \<open>
  Exit code 2 with \<^verbatim>\<open>bad file\<close> on standard error, and an output with zero streams.
\<close>

theorem probe_failures_witness:
  "fst (getVideoAspectRatio env_probe_exit2 ''/tmp/v1.mp4'' world0) = Inl (Error ''ffprobe error: bad file'')
   \<and> fst (getVideoAspectRatio env_zero_streams ''/tmp/v1.mp4'' world0) = Inl (Error ''No video streams found'')"
  using probe_failures [of env_probe_exit2 "''/tmp/v1.mp4''" world0
      "\<lparr>exitCode = 2, outputText = [], errorText = ''bad file''\<rparr>" "files world0"]
    probe_failures [of env_zero_streams "''/tmp/v1.mp4''" world0
      "\<lparr>exitCode = 0, outputText = probe_out_empty, errorText = []\<rparr>" "files world0"
      "[(''programs'', JArr []), (''streams'', JArr [])]"]
  by (simp add: scen_defs ffprobe_argv_def)

text \<open>
  The message of the zero-streams error starts with a capital letter: it is not the
  string \<^verbatim>\<open>no video streams found\<close> of claim C6.
\<close>

theorem zero_streams_message_counterexample:
  "fst (getVideoAspectRatio env_zero_streams ''/tmp/v1.mp4'' world0) = Inl (Error ''No video streams found'')
   \<and> fst (getVideoAspectRatio env_zero_streams ''/tmp/v1.mp4'' world0) \<noteq> Inl (Error ''no video streams found'')"
  by (simp add: getVideoAspectRatio_def io_defs Bun_spawn_def emit_def Let_def scen_defs ffprobe_argv_def)

subsection \<open>C7: the storage key and the URL\<close>

text \<open>
  Claim C7. When the handler returns a response, the class \<open>cls\<close> returned by the probe
  of the temporary file is one of the three classes, the object was put under the key
  \<open>cls/videoId.mp4\<close> with content type \<^verbatim>\<open>video/mp4\<close>, the response has status 200 and its
  body is the record with the URL
  \<open>https://bucket.s3.region.amazonaws.com/cls/videoId.mp4\<close>, and that is the record now
  stored under the identifier.
\<close>

theorem success_key_and_url:
  assumes "handlerUploadVideo env cfg req w = (Inr resp, w')"
  shows "\<exists>videoId video form f cls.
           params_videoId req = Some videoId \<and> getVideo (db w) videoId = Some video \<and>
           formData req = Inr form \<and> map_of form ''video'' = Some (FormFile f) \<and>
           (let tmp = path_join env ''/tmp'' (videoId @ ''.mp4'');
                out = tmp @ ''.processed.mp4'';
                key = cls @ ''/'' @ videoId @ ''.mp4'';
                url = ''https://'' @ s3Bucket cfg @ ''.s3.'' @ s3Region cfg @ ''.amazonaws.com/'' @
                      cls @ ''/'' @ videoId @ ''.mp4''
            in fst (getVideoAspectRatio env tmp (snd (Bun_write env tmp f w))) = Inr cls \<and>
               cls \<in> {''landscape'', ''portrait'', ''other''} \<and>
               trace w' = trace w @
                 [Write tmp, Spawn (ffprobe_argv tmp), Spawn (ffmpeg_argv tmp out),
                  S3Put key out ''video/mp4'', DbUpdate (video\<lparr>videoURL := Some url\<rparr>),
                  Rm tmp, Rm out] \<and>
               resp = \<lparr>status = 200, body = video\<lparr>videoURL := Some url\<rparr>\<rparr> \<and>
               getVideo (db w') videoId = Some (video\<lparr>videoURL := Some url\<rparr>))"
proof -
  from handler_cases [OF assms] obtain videoId token video form f where
    v: "params_videoId req = Some videoId" "getVideo (db w) videoId = Some video"
       "formData req = Inr form" "map_of form ''video'' = Some (FormFile f)"
    and st: "handlerUploadVideo_store env cfg videoId video f w = (Inr resp, w')"
    by auto
  define tmp where "tmp = path_join env ''/tmp'' (videoId @ ''.mp4'')"
  define out where "out = tmp @ ''.processed.mp4''"
  from store_cases [OF st] obtain cls where
    b: "fst (getVideoAspectRatio env tmp (snd (Bun_write env tmp f w))) = Inr cls"
    and fin: "handlerUploadVideo_finish env cfg videoId video tmp cls out
               (snd (processVideoForFastStart env tmp
                 (snd (getVideoAspectRatio env tmp (snd (Bun_write env tmp f w)))))) = (Inr resp, w')"
    by (auto simp: Let_def tmp_def out_def)
  define url where "url = ''https://'' @ s3Bucket cfg @ ''.s3.'' @ s3Region cfg @ ''.amazonaws.com/'' @
                      cls @ ''/'' @ videoId @ ''.mp4''"
  from finish_cases [OF fin]
  have r: "resp = \<lparr>status = 200, body = video\<lparr>videoURL := Some url\<rparr>\<rparr>"
    and t: "trace w' = trace w @
                 [Write tmp, Spawn (ffprobe_argv tmp), Spawn (ffmpeg_argv tmp out),
                  S3Put (cls @ ''/'' @ videoId @ ''.mp4'') out ''video/mp4'',
                  DbUpdate (video\<lparr>videoURL := Some url\<rparr>), Rm tmp, Rm out]"
    and d: "db w' = updateVideo (db w) (video\<lparr>videoURL := Some url\<rparr>)"
    by (auto simp: Let_def url_def out_def respondWithJSON_def split: sum.splits)
  have g: "getVideo (db w') videoId = Some (video\<lparr>videoURL := Some url\<rparr>)"
    unfolding d using v(2) by (rule getVideo_updateVideo)
  show ?thesis
    apply (rule exI [of _ videoId], rule exI [of _ video], rule exI [of _ form],
        rule exI [of _ f], rule exI [of _ cls])
    using v b probe_class_range [OF b] r t g
    by (simp add: Let_def tmp_def out_def url_def)
qed

text \<open>
  The upload of \<open>req0\<close>: a landscape video of the bucket \<^verbatim>\<open>tubely\<close> in \<^verbatim>\<open>us-east-2\<close>.
\<close>

theorem success_key_and_url_witness:
  "fst (handlerUploadVideo env0 cfg0 req0 world0) =
     Inr \<lparr>status = 200, body = video0\<lparr>videoURL := Some url0\<rparr>\<rparr>
   \<and> getVideo (db (snd (handlerUploadVideo env0 cfg0 req0 world0))) ''v1'' =
       Some (video0\<lparr>videoURL := Some url0\<rparr>)
   \<and> S3Put ''landscape/v1.mp4'' ''/tmp/v1.mp4.processed.mp4'' ''video/mp4''
       \<in> set (trace (snd (handlerUploadVideo env0 cfg0 req0 world0)))"
proof -
  have run: "handlerUploadVideo env0 cfg0 req0 world0 =
      (Inr \<lparr>status = 200, body = video0\<lparr>videoURL := Some url0\<rparr>\<rparr>,
       snd (handlerUploadVideo env0 cfg0 req0 world0))"
    using run0(1) by (simp add: prod_eq_iff)
  from success_key_and_url [OF run] obtain videoId video cls where
    v: "params_videoId req0 = Some videoId" "getVideo (db world0) videoId = Some video"
    and c: "cls \<in> {''landscape'', ''portrait'', ''other''}"
    and t: "trace (snd (handlerUploadVideo env0 cfg0 req0 world0)) = trace world0 @
        [Write (path_join env0 ''/tmp'' (videoId @ ''.mp4'')),
         Spawn (ffprobe_argv (path_join env0 ''/tmp'' (videoId @ ''.mp4''))),
         Spawn (ffmpeg_argv (path_join env0 ''/tmp'' (videoId @ ''.mp4''))
                  (path_join env0 ''/tmp'' (videoId @ ''.mp4'') @ ''.processed.mp4'')),
         S3Put (cls @ ''/'' @ videoId @ ''.mp4'')
               (path_join env0 ''/tmp'' (videoId @ ''.mp4'') @ ''.processed.mp4'') ''video/mp4'',
         DbUpdate (video\<lparr>videoURL := Some (''https://'' @ s3Bucket cfg0 @ ''.s3.'' @ s3Region cfg0 @
                     ''.amazonaws.com/'' @ cls @ ''/'' @ videoId @ ''.mp4'')\<rparr>),
         Rm (path_join env0 ''/tmp'' (videoId @ ''.mp4'')),
         Rm (path_join env0 ''/tmp'' (videoId @ ''.mp4'') @ ''.processed.mp4'')]"
    and r: "\<lparr>status = 200, body = video0\<lparr>videoURL := Some url0\<rparr>\<rparr> =
        \<lparr>status = 200, body = video\<lparr>videoURL := Some (''https://'' @ s3Bucket cfg0 @ ''.s3.'' @ s3Region cfg0 @
                     ''.amazonaws.com/'' @ cls @ ''/'' @ videoId @ ''.mp4'')\<rparr>\<rparr>"
    and g: "getVideo (db (snd (handlerUploadVideo env0 cfg0 req0 world0))) videoId =
        Some (video\<lparr>videoURL := Some (''https://'' @ s3Bucket cfg0 @ ''.s3.'' @ s3Region cfg0 @
                     ''.amazonaws.com/'' @ cls @ ''/'' @ videoId @ ''.mp4'')\<rparr>)"
    unfolding Let_def by blast
  from v have vid: "videoId = ''v1''" by (simp add: req0_def)
  from v vid have vd: "video = video0" by (simp add: world0_def getVideo_def video0_def)
  from arg_cong [OF r, of "\<lambda>x. videoURL (body x)"]
  have "url0 = ''https://'' @ s3Bucket cfg0 @ ''.s3.'' @ s3Region cfg0 @
                     ''.amazonaws.com/'' @ cls @ ''/'' @ videoId @ ''.mp4''"
    by simp
  with c have cl: "cls = ''landscape''"
    by (auto simp: url0_def cfg0_def vid)
  show ?thesis
    using run0(1) g t by (simp add: vid vd cl env0_fields url0_def cfg0_def)
qed

subsection \<open>C8: the transcoding step\<close>



subsection \<open>C9: an empty identifier\<close>

text \<open>
  Claim C9. A request whose path parameter is the empty string is rejected with
  BadRequest, as a request without the parameter is, whatever the collaborators would
  answer, and the world is left as it was.
\<close>

theorem empty_video_id_rejected:
  "params_videoId req = Some [] \<longrightarrow>
     handlerUploadVideo env cfg req w = (Inl (BadRequestError ''Invalid video ID''), w) \<and>
     handlerUploadVideo env cfg req w = handlerUploadVideo env cfg (req\<lparr>params_videoId := None\<rparr>) w"
  by (simp add: handlerUploadVideo_def io_throw_def)

text \<open>
  The upload of \<open>req0\<close> with the identifier replaced by the empty string.
\<close>

theorem empty_video_id_rejected_witness:
  "params_videoId req_empty_id = Some [] \<and>
   handlerUploadVideo env0 cfg0 req_empty_id world0 = (Inl (BadRequestError ''Invalid video ID''), world0)"
  using empty_video_id_rejected [of req_empty_id env0 cfg0 world0]
  by (simp add: req_empty_id_def)

subsection \<open>C10: probe output without a \<^verbatim>\<open>streams\<close> field\<close>

text \<open>
  Claim C10. When the probing subprocess exits with 0 and its output parses to an object
  that has no \<^verbatim>\<open>streams\<close> property, the probe throws the \<open>Error\<close> of the zero-streams
  case, with the message \<^verbatim>\<open>No video streams found\<close>, and no \<open>TypeError\<close>.
\<close>

theorem probe_without_streams_field:
  assumes "spawn env (ffprobe_argv p) (files w) = Inr (pr, fs')" and "exitCode pr = 0"
    and "JSON_parse env (outputText pr) = Inr (JObj props)"
    and "map_of props ''streams'' = None"
  shows "fst (getVideoAspectRatio env p w) = Inl (Error ''No video streams found'')"
  using assms by (simp add: getVideoAspectRatio_def io_defs Bun_spawn_def emit_def Let_def)

text \<open>
  An output that holds only \<^verbatim>\<open>programs\<close>.
\<close>

theorem probe_without_streams_field_witness:
  "fst (getVideoAspectRatio env_no_streams_field ''/tmp/v1.mp4'' world0) = Inl (Error ''No video streams found'')"
  using probe_without_streams_field [of env_no_streams_field "''/tmp/v1.mp4''" world0
      "\<lparr>exitCode = 0, outputText = probe_out_bare, errorText = []\<rparr>" "files world0"
      "[(''programs'', JArr [])]"]
  by (simp add: scen_defs ffprobe_argv_def)

end
